theory Spec2Isabelle
  imports Main
begin

section \<open>Version 3.0 of the arbiter (arbiter.cpp, refactored for N players)\<close>

subsection \<open>Data model\<close>

text \<open>The struct \<open>Player\<close> and its constructor \<open>Player(n, initialCards)\<close>. The C++ \<open>int\<close>
  counters are modelled as unbounded integers: one operation moves a counter by at most 5
  (or sets it to at most 100), so that no game an operator can enter leaves the 32-bit
  range.\<close>

record player =
  name :: string
  numberCards :: int
  actionCards :: int
  consecutiveWins :: int
  isBlocked :: bool

definition Player :: "string \<Rightarrow> int \<Rightarrow> player" where
  "Player n initialCards =
     \<lparr>name = n, numberCards = initialCards, actionCards = 0,
      consecutiveWins = 0, isBlocked = False\<rparr>"

text \<open>The private state of class \<open>SplitUnoArbiter\<close>.\<close>

record arbiter =
  players :: "player list"
  numberDeckRemaining :: int
  actionDeckRemaining :: int
  gameOver :: bool
  winner :: string

definition INITIAL_CARDS :: int where "INITIAL_CARDS = 20"
definition INITIAL_NUMBER_DECK :: int where "INITIAL_NUMBER_DECK = 68"
definition INITIAL_ACTION_DECK :: int where "INITIAL_ACTION_DECK = 32"
definition CONSECUTIVE_WINS_THRESHOLD :: int where "CONSECUTIVE_WINS_THRESHOLD = 2"
definition MAX_CARD_NUMBER :: int where "MAX_CARD_NUMBER = 9"
definition MIN_CARD_NUMBER :: int where "MIN_CARD_NUMBER = 0"
definition CARD_7_NUMBER_DRAW :: int where "CARD_7_NUMBER_DRAW = 2"
definition CARD_7_ACTION_DRAW :: int where "CARD_7_ACTION_DRAW = 1"

text \<open>The constructor, and \<open>setupGame\<close>, which reads two names (\<open>numPlayers = 2\<close>) and
  appends one \<open>Player(name, INITIAL_CARDS)\<close> for each.\<close>

definition SplitUnoArbiter :: arbiter where
  "SplitUnoArbiter =
     \<lparr>players = [], numberDeckRemaining = INITIAL_NUMBER_DECK,
      actionDeckRemaining = INITIAL_ACTION_DECK, gameOver = False, winner = ''''\<rparr>"

definition setupGame :: "string \<Rightarrow> string \<Rightarrow> arbiter \<Rightarrow> arbiter" where
  "setupGame name1 name2 s =
     s\<lparr>players := players s @ [Player name1 INITIAL_CARDS, Player name2 INITIAL_CARDS]\<rparr>"

subsection \<open>Deck\<close>

text \<open>\<open>drawFromNumberDeck\<close> and \<open>drawFromActionDeck\<close> return the number of cards drawn
  together with the updated state.\<close>

definition drawFromNumberDeck :: "int \<Rightarrow> arbiter \<Rightarrow> int \<times> arbiter" where
  "drawFromNumberDeck amount s =
     (if numberDeckRemaining s \<le> 0 then (0, s)
      else let actualDraw = min amount (numberDeckRemaining s)
           in (actualDraw, s\<lparr>numberDeckRemaining := numberDeckRemaining s - actualDraw\<rparr>))"

definition drawFromActionDeck :: "int \<Rightarrow> arbiter \<Rightarrow> int \<times> arbiter" where
  "drawFromActionDeck amount s =
     (if actionDeckRemaining s \<le> 0 then (0, s)
      else let actualDraw = min amount (actionDeckRemaining s)
           in (actualDraw, s\<lparr>actionDeckRemaining := actionDeckRemaining s - actualDraw\<rparr>))"

subsection \<open>Ledger updates\<close>

text \<open>The assignments to \<open>players[i].field\<close> that the handlers are made of.\<close>

definition updPlayer :: "nat \<Rightarrow> (player \<Rightarrow> player) \<Rightarrow> arbiter \<Rightarrow> arbiter" where
  "updPlayer i f s = s\<lparr>players := (players s)[i := f (players s ! i)]\<rparr>"

definition addNumber :: "nat \<Rightarrow> int \<Rightarrow> arbiter \<Rightarrow> arbiter" where
  "addNumber i k = updPlayer i (\<lambda>p. p\<lparr>numberCards := numberCards p + k\<rparr>)"

definition addAction :: "nat \<Rightarrow> int \<Rightarrow> arbiter \<Rightarrow> arbiter" where
  "addAction i k = updPlayer i (\<lambda>p. p\<lparr>actionCards := actionCards p + k\<rparr>)"

definition shedNumber :: "nat \<Rightarrow> arbiter \<Rightarrow> arbiter" where
  "shedNumber i = updPlayer i (\<lambda>p. p\<lparr>numberCards := max 0 (numberCards p - 1)\<rparr>)"

definition shedAction :: "nat \<Rightarrow> arbiter \<Rightarrow> arbiter" where
  "shedAction i = updPlayer i (\<lambda>p. p\<lparr>actionCards := max 0 (actionCards p - 1)\<rparr>)"

definition setWins :: "nat \<Rightarrow> int \<Rightarrow> arbiter \<Rightarrow> arbiter" where
  "setWins i k = updPlayer i (\<lambda>p. p\<lparr>consecutiveWins := k\<rparr>)"

definition setBlocked :: "nat \<Rightarrow> bool \<Rightarrow> arbiter \<Rightarrow> arbiter" where
  "setBlocked i b = updPlayer i (\<lambda>p. p\<lparr>isBlocked := b\<rparr>)"

text \<open>\<open>players[i].numberCards += drawFromNumberDeck(k)\<close> and its action-deck twin.\<close>

definition drawNumberTo :: "nat \<Rightarrow> int \<Rightarrow> arbiter \<Rightarrow> arbiter" where
  "drawNumberTo i k s = (case drawFromNumberDeck k s of (drawn, s') \<Rightarrow> addNumber i drawn s')"

definition drawActionTo :: "nat \<Rightarrow> int \<Rightarrow> arbiter \<Rightarrow> arbiter" where
  "drawActionTo i k s = (case drawFromActionDeck k s of (drawn, s') \<Rightarrow> addAction i drawn s')"

subsection \<open>Answers supplied by the operator\<close>

text \<open>The handlers read their follow-up decisions through \<open>getValidatedInt\<close>,
  \<open>getValidatedString\<close> and \<open>getValidatedPlayerIndex\<close>, which loop until the answer is in
  range. The model takes the accepted answers as arguments. The strings \<open>+2\<close> and \<open>+4\<close> are
  the datatype \<open>draw_card\<close>, a Y/N answer is a \<open>bool\<close> (\<open>True\<close> for Y or YES).\<close>

datatype draw_card = PlusTwo | PlusFour

fun drawAmount :: "draw_card \<Rightarrow> int" where
  "drawAmount PlusTwo = 2"
| "drawAmount PlusFour = 4"

text \<open>The answers of \<open>handleDrawChallenge\<close>: no challenge, or the challenger's index and
  the card played.\<close>

datatype challenge_answer = NoChallenge | ChallengeBy nat draw_card

text \<open>The answers of one number round, indexed by the player the question is about: the
  card declared by player \<open>i\<close>, the target of the steal of player \<open>i\<close>, the target of the
  penalty of player \<open>i\<close>, the bonus choice of player \<open>i\<close> and the challenge raised against
  player \<open>i\<close>. Every loop of the round asks each of these at most once for each index.\<close>

record round_input =
  cardOf :: "nat \<Rightarrow> int"
  stealFrom :: "nat \<Rightarrow> nat"
  penaltyTo :: "nat \<Rightarrow> nat"
  bonusChoice :: "nat \<Rightarrow> int"
  challengeOf :: "nat \<Rightarrow> challenge_answer"

text \<open>What \<open>getValidatedPlayerIndex(prompt, excludeIndex)\<close> can return in a game of \<open>n\<close>
  players, and what \<open>getValidatedInt(prompt, lo, hi)\<close> can return.\<close>

definition validPlayerIndex :: "nat \<Rightarrow> nat \<Rightarrow> nat \<Rightarrow> bool" where
  "validPlayerIndex n excludeIndex idx \<longleftrightarrow> idx < n \<and> idx \<noteq> excludeIndex"

definition validInt :: "int \<Rightarrow> int \<Rightarrow> int \<Rightarrow> bool" where
  "validInt lo hi v \<longleftrightarrow> lo \<le> v \<and> v \<le> hi"

fun validChallenge :: "nat \<Rightarrow> nat \<Rightarrow> challenge_answer \<Rightarrow> bool" where
  "validChallenge n winnerIdx NoChallenge = True"
| "validChallenge n winnerIdx (ChallengeBy challengerIdx cardType) =
     validPlayerIndex n winnerIdx challengerIdx"

definition validRoundInput :: "nat \<Rightarrow> round_input \<Rightarrow> bool" where
  "validRoundInput n inp \<longleftrightarrow>
     (\<forall>i < n. validInt MIN_CARD_NUMBER MAX_CARD_NUMBER (cardOf inp i)
            \<and> validPlayerIndex n i (stealFrom inp i)
            \<and> validPlayerIndex n i (penaltyTo inp i)
            \<and> validInt 1 2 (bonusChoice inp i)
            \<and> validChallenge n i (challengeOf inp i))"

subsection \<open>Number round\<close>

text \<open>Step 1 of \<open>handleNumberRound\<close>: the loop that collects the cards. A blocked player is
  unblocked and marked \<open>-1\<close>; the others declare a card, and the running maximum and the
  vector \<open>winners\<close> are kept.\<close>

fun collectCards ::
  "(nat \<Rightarrow> int) \<Rightarrow> nat list \<Rightarrow> arbiter \<Rightarrow> int list \<Rightarrow> int \<Rightarrow> nat list
     \<Rightarrow> arbiter \<times> int list \<times> int \<times> nat list" where
  "collectCards cards [] s playedCards maxCard winners = (s, playedCards, maxCard, winners)"
| "collectCards cards (i # rest) s playedCards maxCard winners =
     (if isBlocked (players s ! i)
      then collectCards cards rest (setBlocked i False s) (playedCards[i := - 1]) maxCard winners
      else let c = cards i in
        if c > maxCard then collectCards cards rest s (playedCards[i := c]) c [i]
        else if c = maxCard
          then collectCards cards rest s (playedCards[i := c]) maxCard (winners @ [i])
          else collectCards cards rest s (playedCards[i := c]) maxCard winners)"

text \<open>Step 2: the effects of the cards 0 and 7, for each player in turn.\<close>

definition card0Effect :: "round_input \<Rightarrow> nat \<Rightarrow> arbiter \<Rightarrow> arbiter" where
  "card0Effect inp i s =
     (let targetIdx = stealFrom inp i in
      if numberCards (players s ! targetIdx) > 0
      then addNumber targetIdx (- 1) (addNumber i 1 s)
      else s)"

definition card7Effect :: "round_input \<Rightarrow> nat \<Rightarrow> arbiter \<Rightarrow> arbiter" where
  "card7Effect inp i s =
     (let targetIdx = penaltyTo inp i in
      case drawFromNumberDeck CARD_7_NUMBER_DRAW s of (numDrawn, s1) \<Rightarrow>
      case drawFromActionDeck CARD_7_ACTION_DRAW s1 of (actDrawn, s2) \<Rightarrow>
        addAction targetIdx actDrawn (addNumber targetIdx numDrawn s2))"

fun specialEffects :: "round_input \<Rightarrow> int list \<Rightarrow> nat list \<Rightarrow> arbiter \<Rightarrow> arbiter" where
  "specialEffects inp playedCards [] s = s"
| "specialEffects inp playedCards (i # rest) s =
     (let s1 = (if playedCards ! i = 0 then card0Effect inp i s else s);
          s2 = (if playedCards ! i = 7 then card7Effect inp i s1 else s1)
      in specialEffects inp playedCards rest s2)"

text \<open>Step 3, one winner: the winner sheds and the other players who declared a card lose
  their streak and draw one card.\<close>

fun losersDraw :: "nat \<Rightarrow> int list \<Rightarrow> nat list \<Rightarrow> arbiter \<Rightarrow> arbiter" where
  "losersDraw winnerIdx playedCards [] s = s"
| "losersDraw winnerIdx playedCards (i # rest) s =
     (if i \<noteq> winnerIdx \<and> playedCards ! i \<noteq> - 1
      then losersDraw winnerIdx playedCards rest (drawNumberTo i 1 (setWins i 0 s))
      else losersDraw winnerIdx playedCards rest s)"

definition resolveSingleWinner :: "nat \<Rightarrow> int list \<Rightarrow> arbiter \<Rightarrow> arbiter" where
  "resolveSingleWinner winnerIdx playedCards s =
     losersDraw winnerIdx playedCards [0..<length (players s)]
       (updPlayer winnerIdx (\<lambda>p. p\<lparr>consecutiveWins := consecutiveWins p + 1\<rparr>)
          (shedNumber winnerIdx s))"

text \<open>Step 3, a tie: the loop over \<open>winners\<close>, then the loop \<open>for (auto& p : players)\<close>
  in which every element of \<open>players\<close> draws one card.\<close>

fun tiedShed :: "nat list \<Rightarrow> arbiter \<Rightarrow> arbiter" where
  "tiedShed [] s = s"
| "tiedShed (w # rest) s = tiedShed rest (setWins w 0 (shedNumber w s))"

fun allDraw :: "nat list \<Rightarrow> arbiter \<Rightarrow> arbiter" where
  "allDraw [] s = s"
| "allDraw (i # rest) s = allDraw rest (drawNumberTo i 1 s)"

definition resolveTie :: "nat list \<Rightarrow> arbiter \<Rightarrow> arbiter" where
  "resolveTie winners s = allDraw [0..<length (players s)] (tiedShed winners s)"

subsection \<open>Bonus and win evaluation\<close>

text \<open>\<open>checkConsecutiveWins\<close>: for each player with a streak at the threshold, either the
  player draws one action card or every player with a different name draws two number
  cards; the streak is then reset.\<close>

fun opponentsDraw :: "string \<Rightarrow> nat list \<Rightarrow> arbiter \<Rightarrow> arbiter" where
  "opponentsDraw pname [] s = s"
| "opponentsDraw pname (j # rest) s =
     (if name (players s ! j) \<noteq> pname
      then opponentsDraw pname rest (drawNumberTo j 2 s)
      else opponentsDraw pname rest s)"

fun checkConsecutiveWinsLoop :: "(nat \<Rightarrow> int) \<Rightarrow> nat list \<Rightarrow> arbiter \<Rightarrow> arbiter" where
  "checkConsecutiveWinsLoop choice [] s = s"
| "checkConsecutiveWinsLoop choice (i # rest) s =
     (if consecutiveWins (players s ! i) \<ge> CONSECUTIVE_WINS_THRESHOLD
      then let s1 = (if choice i = 1 then drawActionTo i 1 s
                     else opponentsDraw (name (players s ! i)) [0..<length (players s)] s)
           in checkConsecutiveWinsLoop choice rest (setWins i 0 s1)
      else checkConsecutiveWinsLoop choice rest s)"

definition checkConsecutiveWins :: "(nat \<Rightarrow> int) \<Rightarrow> arbiter \<Rightarrow> arbiter" where
  "checkConsecutiveWins choice s = checkConsecutiveWinsLoop choice [0..<length (players s)] s"

text \<open>\<open>handleDrawChallenge\<close>: without a challenge the game is over and the player wins;
  with one, the player draws the amount of the card and the challenger sheds an action
  card. The function returns after the draw in either case.\<close>

fun handleDrawChallenge :: "nat \<Rightarrow> challenge_answer \<Rightarrow> arbiter \<Rightarrow> arbiter" where
  "handleDrawChallenge winnerIdx NoChallenge s =
     s\<lparr>gameOver := True, winner := name (players s ! winnerIdx)\<rparr>"
| "handleDrawChallenge winnerIdx (ChallengeBy challengerIdx cardType) s =
     shedAction challengerIdx (drawNumberTo winnerIdx (drawAmount cardType) s)"

text \<open>\<open>checkWinCondition\<close>: one pass over the players; each player found at zero gets one
  call of \<open>handleDrawChallenge\<close>, and the pass stops when the game is over.\<close>

fun checkWinConditionLoop :: "(nat \<Rightarrow> challenge_answer) \<Rightarrow> nat list \<Rightarrow> arbiter \<Rightarrow> arbiter" where
  "checkWinConditionLoop ans [] s = s"
| "checkWinConditionLoop ans (i # rest) s =
     (if numberCards (players s ! i) = 0
      then let s1 = handleDrawChallenge i (ans i) s
           in if gameOver s1 then s1 else checkWinConditionLoop ans rest s1
      else checkWinConditionLoop ans rest s)"

definition checkWinCondition :: "(nat \<Rightarrow> challenge_answer) \<Rightarrow> arbiter \<Rightarrow> arbiter" where
  "checkWinCondition ans s = checkWinConditionLoop ans [0..<length (players s)] s"

text \<open>\<open>handleNumberRound\<close> as a whole. When every player was blocked, the function returns
  before the bonus and win evaluation.\<close>

definition resolveWinner :: "nat list \<Rightarrow> int list \<Rightarrow> arbiter \<Rightarrow> arbiter" where
  "resolveWinner winners playedCards s =
     (if length winners = 1 then resolveSingleWinner (winners ! 0) playedCards s
      else resolveTie winners s)"

definition handleNumberRound :: "round_input \<Rightarrow> arbiter \<Rightarrow> arbiter" where
  "handleNumberRound inp s =
     (let n = length (players s) in
      case collectCards (cardOf inp) [0..<n] s (replicate n 0) (- 1) [] of
        (s1, playedCards, maxCard, winners) \<Rightarrow>
          let s2 = specialEffects inp playedCards [0..<n] s1 in
          if winners = [] then s2
          else checkWinCondition (challengeOf inp)
                 (checkConsecutiveWins (bonusChoice inp)
                    (resolveWinner winners playedCards s2)))"

subsection \<open>Action cards\<close>

text \<open>The enum \<open>ActionType\<close> and the answers an action handler asks for: the target, the
  Y/N answer, the counter card and the penalty choice.\<close>

datatype ActionType =
  BLOCK | SKIP | REVERSE | COLOR_CHANGE | WILD | DRAW_TWO | DRAW_FOUR | TRUTH | DARE | UNKNOWN

record action_input =
  target :: nat
  answer :: bool
  counterCard :: draw_card
  penaltyChoice :: int

definition handleBlockCard :: "nat \<Rightarrow> nat \<Rightarrow> bool \<Rightarrow> arbiter \<Rightarrow> arbiter" where
  "handleBlockCard playerIdx targetIdx counter s =
     (if counter
      then shedAction targetIdx (shedAction playerIdx
             (shedNumber targetIdx (shedNumber playerIdx s)))
      else shedAction playerIdx (setBlocked targetIdx True s))"

text \<open>\<open>std::swap\<close> on the two counters of two players.\<close>

definition swapNumberCards :: "nat \<Rightarrow> nat \<Rightarrow> arbiter \<Rightarrow> arbiter" where
  "swapNumberCards i j s =
     (let a = numberCards (players s ! i); b = numberCards (players s ! j)
      in updPlayer j (\<lambda>p. p\<lparr>numberCards := a\<rparr>) (updPlayer i (\<lambda>p. p\<lparr>numberCards := b\<rparr>) s))"

definition swapActionCards :: "nat \<Rightarrow> nat \<Rightarrow> arbiter \<Rightarrow> arbiter" where
  "swapActionCards i j s =
     (let a = actionCards (players s ! i); b = actionCards (players s ! j)
      in updPlayer j (\<lambda>p. p\<lparr>actionCards := a\<rparr>) (updPlayer i (\<lambda>p. p\<lparr>actionCards := b\<rparr>) s))"

text \<open>\<open>handleReverseCard\<close>, statement by statement: the two swaps, the decrement of the
  actor's action cards, and the two swaps again.\<close>

definition handleReverseCard :: "nat \<Rightarrow> nat \<Rightarrow> arbiter \<Rightarrow> arbiter" where
  "handleReverseCard playerIdx targetIdx s =
     (let s1 = swapNumberCards playerIdx targetIdx s;
          s2 = swapActionCards playerIdx targetIdx s1;
          s3 = shedAction playerIdx s2;
          s4 = swapNumberCards playerIdx targetIdx s3
      in swapActionCards playerIdx targetIdx s4)"

fun allShed :: "nat list \<Rightarrow> arbiter \<Rightarrow> arbiter" where
  "allShed [] s = s"
| "allShed (i # rest) s = allShed rest (shedNumber i s)"

definition handleColorChangeCard :: "nat \<Rightarrow> arbiter \<Rightarrow> arbiter" where
  "handleColorChangeCard playerIdx s =
     shedAction playerIdx (allShed [0..<length (players s)] s)"

text \<open>\<open>handleDrawCard\<close>: \<open>counter\<close> is \<open>None\<close> when the target takes the hit and the counter
  card otherwise.\<close>

definition handleDrawCard :: "nat \<Rightarrow> int \<Rightarrow> nat \<Rightarrow> draw_card option \<Rightarrow> arbiter \<Rightarrow> arbiter" where
  "handleDrawCard playerIdx amount targetIdx counter s =
     (case counter of
        Some oppCard \<Rightarrow>
          (let oppAmount = drawAmount oppCard;
               diff = \<bar>amount - oppAmount\<bar>;
               loserDraw = 1 + diff;
               s1 = (if amount > oppAmount then drawNumberTo targetIdx loserDraw s
                     else if oppAmount > amount then drawNumberTo playerIdx loserDraw s
                     else drawNumberTo targetIdx 1 (drawNumberTo playerIdx 1 s))
           in shedAction targetIdx (shedAction playerIdx s1))
      | None \<Rightarrow> shedAction playerIdx (drawNumberTo targetIdx amount s))"

definition handleTruthCard :: "nat \<Rightarrow> nat \<Rightarrow> bool \<Rightarrow> int \<Rightarrow> arbiter \<Rightarrow> arbiter" where
  "handleTruthCard playerIdx targetIdx answered choice s =
     (let s1 = (if \<not> answered
                then (if choice = 1
                      then drawNumberTo targetIdx 2 (drawActionTo playerIdx 2 s)
                      else drawNumberTo targetIdx 5 s)
                else s)
      in shedNumber playerIdx (shedAction playerIdx s1))"

definition handleDareCard :: "nat \<Rightarrow> nat \<Rightarrow> bool \<Rightarrow> arbiter \<Rightarrow> arbiter" where
  "handleDareCard playerIdx targetIdx completed s =
     (if \<not> completed
      then s\<lparr>gameOver := True, winner := name (players s ! playerIdx)\<rparr>
      else shedNumber playerIdx (shedAction playerIdx s))"

text \<open>The dispatch of \<open>handleActionCard\<close>.\<close>

fun handleActionCard :: "nat \<Rightarrow> ActionType \<Rightarrow> action_input \<Rightarrow> arbiter \<Rightarrow> arbiter" where
  "handleActionCard playerIdx BLOCK inp s = handleBlockCard playerIdx (target inp) (answer inp) s"
| "handleActionCard playerIdx SKIP inp s = handleBlockCard playerIdx (target inp) (answer inp) s"
| "handleActionCard playerIdx REVERSE inp s = handleReverseCard playerIdx (target inp) s"
| "handleActionCard playerIdx COLOR_CHANGE inp s = handleColorChangeCard playerIdx s"
| "handleActionCard playerIdx WILD inp s = handleColorChangeCard playerIdx s"
| "handleActionCard playerIdx DRAW_TWO inp s =
     handleDrawCard playerIdx 2 (target inp)
       (if answer inp then Some (counterCard inp) else None) s"
| "handleActionCard playerIdx DRAW_FOUR inp s =
     handleDrawCard playerIdx 4 (target inp)
       (if answer inp then Some (counterCard inp) else None) s"
| "handleActionCard playerIdx TRUTH inp s =
     handleTruthCard playerIdx (target inp) (answer inp) (penaltyChoice inp) s"
| "handleActionCard playerIdx DARE inp s = handleDareCard playerIdx (target inp) (answer inp) s"
| "handleActionCard playerIdx UNKNOWN inp s = s"

definition validActionInput :: "nat \<Rightarrow> nat \<Rightarrow> action_input \<Rightarrow> bool" where
  "validActionInput n playerIdx inp \<longleftrightarrow>
     playerIdx < n \<and> validPlayerIndex n playerIdx (target inp) \<and> validInt 1 2 (penaltyChoice inp)"

subsection \<open>Manual adjustment and the main loop\<close>

definition manualAdjustment :: "nat \<Rightarrow> int \<Rightarrow> int \<Rightarrow> arbiter \<Rightarrow> arbiter" where
  "manualAdjustment pIdx choice newCount s =
     (if choice = 1 then updPlayer pIdx (\<lambda>p. p\<lparr>numberCards := newCount\<rparr>) s
      else if choice = 2 then updPlayer pIdx (\<lambda>p. p\<lparr>actionCards := newCount\<rparr>) s
      else setWins pIdx 0 s)"

definition validAdjustment :: "nat \<Rightarrow> nat \<Rightarrow> int \<Rightarrow> int \<Rightarrow> bool" where
  "validAdjustment n pIdx choice newCount \<longleftrightarrow>
     pIdx < n \<and> validInt 1 3 choice
     \<and> (choice = 1 \<longrightarrow> validInt 0 100 newCount)
     \<and> (choice = 2 \<longrightarrow> validInt 0 50 newCount)"

text \<open>One iteration of the loop of \<open>run\<close>, which is entered only while the game is not over:
  menu choice 1 is a number round, 2 an action card, 4 a manual adjustment, 5 ends the game
  (choice 3 only displays the state).\<close>

inductive step :: "arbiter \<Rightarrow> arbiter \<Rightarrow> bool" where
  numberRound:
    "\<not> gameOver s \<Longrightarrow> validRoundInput (length (players s)) inp
       \<Longrightarrow> step s (handleNumberRound inp s)"
| actionCard:
    "\<not> gameOver s \<Longrightarrow> validActionInput (length (players s)) playerIdx inp
       \<Longrightarrow> step s (handleActionCard playerIdx actionType inp s)"
| adjust:
    "\<not> gameOver s \<Longrightarrow> validAdjustment (length (players s)) pIdx choice newCount
       \<Longrightarrow> step s (manualAdjustment pIdx choice newCount s)"
| endGame:
    "\<not> gameOver s \<Longrightarrow> step s (s\<lparr>gameOver := True\<rparr>)"

text \<open>The states a game can be in: those reached from the state after \<open>setupGame\<close>.\<close>

inductive reachable :: "arbiter \<Rightarrow> bool" where
  afterSetup: "reachable (setupGame name1 name2 SplitUnoArbiter)"
| afterStep: "reachable s \<Longrightarrow> step s s' \<Longrightarrow> reachable s'"

section \<open>Versions 1.0 and 2.0 of the arbiter (two players A and B)\<close>

text \<open>Both earlier versions keep the same private fields. The deck and game fields carry
  the suffix \<open>AB\<close> here, the names without it being those of version 3.0.\<close>

record arbiterAB =
  playerACards :: int
  playerBCards :: int
  playerAActionCards :: int
  playerBActionCards :: int
  consecutiveWinsA :: int
  consecutiveWinsB :: int
  lastWinner :: string
  playerABlocked :: bool
  playerBBlocked :: bool
  numberDeckRemainingAB :: int
  actionDeckRemainingAB :: int
  gameOverAB :: bool
  winnerAB :: string

text \<open>The constructor, the same in both versions.\<close>

definition SplitUnoArbiterAB :: arbiterAB where
  "SplitUnoArbiterAB =
     \<lparr>playerACards = 20, playerBCards = 20, playerAActionCards = 0, playerBActionCards = 0,
      consecutiveWinsA = 0, consecutiveWinsB = 0, lastWinner = [],
      playerABlocked = False, playerBBlocked = False,
      numberDeckRemainingAB = 68, actionDeckRemainingAB = 32,
      gameOverAB = False, winnerAB = []\<rparr>"

text \<open>The answers of a two-player round: the two cards, the two bonus choices, and for
  each player the challenge raised against that player when the player is at zero: none,
  a +2/+4 that is the challenger's only card, or a +2/+4 that is played.\<close>

datatype challengeAB = NoChallengeAB | OnlyCardAB | PlayedAB draw_card

record round_inputAB =
  numA :: int
  numB :: int
  choiceA :: int
  choiceB :: int
  challengeA :: challengeAB
  challengeB :: challengeAB

subsection \<open>Version 1.0 (the first half of arbiter.cpp)\<close>

text \<open>The three parts of the body of \<open>handleNumberRound\<close>: the card 0, the card 7, the bid.
  Version 1.0 reads the cards with \<open>stoi\<close> and checks no range.\<close>

definition card0Effects_v1 :: "int \<Rightarrow> int \<Rightarrow> arbiterAB \<Rightarrow> arbiterAB" where
  "card0Effects_v1 a b s =
     (let s1 = (if a = 0
                then s\<lparr>playerACards := playerACards s + 1, playerBCards := playerBCards s - 1\<rparr>
                else s)
      in if b = 0
         then s1\<lparr>playerBCards := playerBCards s1 + 1, playerACards := playerACards s1 - 1\<rparr>
         else s1)"

definition card7Effects_v1 :: "int \<Rightarrow> int \<Rightarrow> arbiterAB \<Rightarrow> arbiterAB" where
  "card7Effects_v1 a b s =
     (let s1 = (if a = 7
                then s\<lparr>playerBCards := playerBCards s + 2,
                       playerBActionCards := playerBActionCards s + 1,
                       numberDeckRemainingAB := numberDeckRemainingAB s - 2,
                       actionDeckRemainingAB := actionDeckRemainingAB s - 1\<rparr>
                else s)
      in if b = 7
         then s1\<lparr>playerACards := playerACards s1 + 2,
                 playerAActionCards := playerAActionCards s1 + 1,
                 numberDeckRemainingAB := numberDeckRemainingAB s1 - 2,
                 actionDeckRemainingAB := actionDeckRemainingAB s1 - 1\<rparr>
         else s1)"

definition resolveBid_v1 :: "int \<Rightarrow> int \<Rightarrow> arbiterAB \<Rightarrow> arbiterAB" where
  "resolveBid_v1 a b s =
     (if a > b
      then s\<lparr>playerACards := playerACards s - 1, playerBCards := playerBCards s + 1,
             numberDeckRemainingAB := numberDeckRemainingAB s - 1,
             consecutiveWinsA := consecutiveWinsA s + 1, consecutiveWinsB := 0,
             lastWinner := ''A''\<rparr>
      else if b > a
      then s\<lparr>playerBCards := playerBCards s - 1, playerACards := playerACards s + 1,
             numberDeckRemainingAB := numberDeckRemainingAB s - 1,
             consecutiveWinsB := consecutiveWinsB s + 1, consecutiveWinsA := 0,
             lastWinner := ''B''\<rparr>
      else s\<lparr>playerACards := playerACards s - 1 + 1, playerBCards := playerBCards s - 1 + 1,
             consecutiveWinsA := 0, consecutiveWinsB := 0\<rparr>)"

definition checkConsecutiveWins_v1 :: "round_inputAB \<Rightarrow> arbiterAB \<Rightarrow> arbiterAB" where
  "checkConsecutiveWins_v1 inp s =
     (let s1 = (if consecutiveWinsA s \<ge> 2
                then (if choiceA inp = 1
                      then s\<lparr>playerAActionCards := playerAActionCards s + 1,
                             actionDeckRemainingAB := actionDeckRemainingAB s - 1\<rparr>
                      else s\<lparr>playerBCards := playerBCards s + 2,
                             numberDeckRemainingAB := numberDeckRemainingAB s - 2\<rparr>)
                     \<lparr>consecutiveWinsA := 0\<rparr>
                else s)
      in if consecutiveWinsB s1 \<ge> 2
         then (if choiceB inp = 1
               then s1\<lparr>playerBActionCards := playerBActionCards s1 + 1,
                       actionDeckRemainingAB := actionDeckRemainingAB s1 - 1\<rparr>
               else s1\<lparr>playerACards := playerACards s1 + 2,
                       numberDeckRemainingAB := numberDeckRemainingAB s1 - 2\<rparr>)
              \<lparr>consecutiveWinsB := 0\<rparr>
         else s1)"

definition checkWinCondition_v1 :: "round_inputAB \<Rightarrow> arbiterAB \<Rightarrow> arbiterAB" where
  "checkWinCondition_v1 inp s =
     (let s1 = (if playerACards s = 0
                then (case challengeA inp of
                        OnlyCardAB \<Rightarrow>
                          s\<lparr>playerBCards := playerBCards s + 1,
                            numberDeckRemainingAB := numberDeckRemainingAB s - 1\<rparr>
                      | PlayedAB cardType \<Rightarrow>
                          s\<lparr>playerACards := playerACards s + drawAmount cardType,
                            playerBActionCards := playerBActionCards s - 1,
                            numberDeckRemainingAB := numberDeckRemainingAB s - drawAmount cardType\<rparr>
                      | NoChallengeAB \<Rightarrow> s\<lparr>gameOverAB := True, winnerAB := ''A''\<rparr>)
                else s)
      in if playerBCards s1 = 0
         then (case challengeB inp of
                 OnlyCardAB \<Rightarrow>
                   s1\<lparr>playerACards := playerACards s1 + 1,
                      numberDeckRemainingAB := numberDeckRemainingAB s1 - 1\<rparr>
               | PlayedAB cardType \<Rightarrow>
                   s1\<lparr>playerBCards := playerBCards s1 + drawAmount cardType,
                      playerAActionCards := playerAActionCards s1 - 1,
                      numberDeckRemainingAB := numberDeckRemainingAB s1 - drawAmount cardType\<rparr>
               | NoChallengeAB \<Rightarrow> s1\<lparr>gameOverAB := True, winnerAB := ''B''\<rparr>)
         else s1)"

definition handleBlockedRound_v1 :: "char \<Rightarrow> round_inputAB \<Rightarrow> arbiterAB \<Rightarrow> arbiterAB" where
  "handleBlockedRound_v1 activePlayer inp s =
     checkWinCondition_v1 inp (checkConsecutiveWins_v1 inp
       (if activePlayer = CHR ''A''
        then s\<lparr>playerACards := playerACards s - 1, playerBCards := playerBCards s + 1,
               numberDeckRemainingAB := numberDeckRemainingAB s - 1,
               consecutiveWinsA := consecutiveWinsA s + 1, consecutiveWinsB := 0,
               lastWinner := ''A''\<rparr>
        else s\<lparr>playerBCards := playerBCards s - 1, playerACards := playerACards s + 1,
               numberDeckRemainingAB := numberDeckRemainingAB s - 1,
               consecutiveWinsB := consecutiveWinsB s + 1, consecutiveWinsA := 0,
               lastWinner := ''B''\<rparr>))"

definition handleNumberRound_v1 :: "round_inputAB \<Rightarrow> arbiterAB \<Rightarrow> arbiterAB" where
  "handleNumberRound_v1 inp s =
     (if playerABlocked s
      then (handleBlockedRound_v1 (CHR ''B'') inp s)\<lparr>playerABlocked := False\<rparr>
      else if playerBBlocked s
      then (handleBlockedRound_v1 (CHR ''A'') inp s)\<lparr>playerBBlocked := False\<rparr>
      else checkWinCondition_v1 inp (checkConsecutiveWins_v1 inp
             (resolveBid_v1 (numA inp) (numB inp)
                (card7Effects_v1 (numA inp) (numB inp)
                   (card0Effects_v1 (numA inp) (numB inp) s)))))"

text \<open>\<open>handleBlockCard\<close> of version 1.0; \<open>opponent\<close> is the answer to "Did the opponent also
  play BLOCK?".\<close>

definition handleBlockCard_v1 :: "string \<Rightarrow> bool \<Rightarrow> arbiterAB \<Rightarrow> arbiterAB" where
  "handleBlockCard_v1 player opponent s =
     (if opponent
      then s\<lparr>playerACards := playerACards s - 1, playerBCards := playerBCards s - 1,
             playerAActionCards := playerAActionCards s - 1,
             playerBActionCards := playerBActionCards s - 1\<rparr>
      else if player = ''A''
      then s\<lparr>playerBBlocked := True, playerAActionCards := playerAActionCards s - 1\<rparr>
      else s\<lparr>playerABlocked := True, playerBActionCards := playerBActionCards s - 1\<rparr>)"

subsection \<open>Version 2.0 (src/unnamed/part_001)\<close>

definition drawFromNumberDeck_v2 :: "int \<Rightarrow> arbiterAB \<Rightarrow> int \<times> arbiterAB" where
  "drawFromNumberDeck_v2 amount s =
     (if numberDeckRemainingAB s \<le> 0 then (0, s)
      else let actualDraw = min amount (numberDeckRemainingAB s)
           in (actualDraw, s\<lparr>numberDeckRemainingAB := numberDeckRemainingAB s - actualDraw\<rparr>))"

definition drawFromActionDeck_v2 :: "int \<Rightarrow> arbiterAB \<Rightarrow> int \<times> arbiterAB" where
  "drawFromActionDeck_v2 amount s =
     (if actionDeckRemainingAB s \<le> 0 then (0, s)
      else let actualDraw = min amount (actionDeckRemainingAB s)
           in (actualDraw, s\<lparr>actionDeckRemainingAB := actionDeckRemainingAB s - actualDraw\<rparr>))"

text \<open>The counters of the player called \<open>A\<close> or \<open>B\<close>; the handlers compare the name with
  \<open>A\<close> and treat every other value as \<open>B\<close>.\<close>

definition addCards_v2 :: "bool \<Rightarrow> int \<Rightarrow> arbiterAB \<Rightarrow> arbiterAB" where
  "addCards_v2 isA k s =
     (if isA then s\<lparr>playerACards := playerACards s + k\<rparr>
      else s\<lparr>playerBCards := playerBCards s + k\<rparr>)"

definition addActionCards_v2 :: "bool \<Rightarrow> int \<Rightarrow> arbiterAB \<Rightarrow> arbiterAB" where
  "addActionCards_v2 isA k s =
     (if isA then s\<lparr>playerAActionCards := playerAActionCards s + k\<rparr>
      else s\<lparr>playerBActionCards := playerBActionCards s + k\<rparr>)"

definition shedCard_v2 :: "bool \<Rightarrow> arbiterAB \<Rightarrow> arbiterAB" where
  "shedCard_v2 isA s =
     (if isA then s\<lparr>playerACards := max 0 (playerACards s - 1)\<rparr>
      else s\<lparr>playerBCards := max 0 (playerBCards s - 1)\<rparr>)"

definition shedActionCard_v2 :: "bool \<Rightarrow> arbiterAB \<Rightarrow> arbiterAB" where
  "shedActionCard_v2 isA s =
     (if isA then s\<lparr>playerAActionCards := max 0 (playerAActionCards s - 1)\<rparr>
      else s\<lparr>playerBActionCards := max 0 (playerBActionCards s - 1)\<rparr>)"

definition processNumberCardEffects_v2 :: "int \<Rightarrow> int \<Rightarrow> arbiterAB \<Rightarrow> arbiterAB" where
  "processNumberCardEffects_v2 a b s =
     (let s1 = (if a = 0 \<and> playerBCards s > 0
                then s\<lparr>playerACards := playerACards s + 1, playerBCards := playerBCards s - 1\<rparr>
                else s);
          s2 = (if b = 0 \<and> playerACards s1 > 0
                then s1\<lparr>playerBCards := playerBCards s1 + 1, playerACards := playerACards s1 - 1\<rparr>
                else s1);
          s3 = (if a = 7
                then (case drawFromNumberDeck_v2 2 s2 of (numberDrawn, t1) \<Rightarrow>
                      case drawFromActionDeck_v2 1 t1 of (actionDrawn, t2) \<Rightarrow>
                        addActionCards_v2 False actionDrawn (addCards_v2 False numberDrawn t2))
                else s2)
      in if b = 7
         then (case drawFromNumberDeck_v2 2 s3 of (numberDrawn, t1) \<Rightarrow>
               case drawFromActionDeck_v2 1 t1 of (actionDrawn, t2) \<Rightarrow>
                 addActionCards_v2 True actionDrawn (addCards_v2 True numberDrawn t2))
         else s3)"

text \<open>A win of one player over the other, as in \<open>resolveNumberBid\<close> and
  \<open>handleBlockedRound\<close>: the winner sheds, the loser draws one card.\<close>

definition roundWon_v2 :: "bool \<Rightarrow> arbiterAB \<Rightarrow> arbiterAB" where
  "roundWon_v2 isA s =
     (case drawFromNumberDeck_v2 1 (shedCard_v2 isA s) of (drawn, s1) \<Rightarrow>
        if isA
        then (addCards_v2 False drawn s1)
               \<lparr>consecutiveWinsA := consecutiveWinsA s1 + 1, consecutiveWinsB := 0,
                lastWinner := ''A''\<rparr>
        else (addCards_v2 True drawn s1)
               \<lparr>consecutiveWinsB := consecutiveWinsB s1 + 1, consecutiveWinsA := 0,
                lastWinner := ''B''\<rparr>)"

definition resolveNumberBid_v2 :: "int \<Rightarrow> int \<Rightarrow> arbiterAB \<Rightarrow> arbiterAB" where
  "resolveNumberBid_v2 a b s =
     (if a > b then roundWon_v2 True s
      else if b > a then roundWon_v2 False s
      else (case drawFromNumberDeck_v2 1 (shedCard_v2 False (shedCard_v2 True s)) of
              (drawnA, s1) \<Rightarrow>
            case drawFromNumberDeck_v2 1 s1 of (drawnB, s2) \<Rightarrow>
              (addCards_v2 False drawnB (addCards_v2 True drawnA s2))
                \<lparr>consecutiveWinsA := 0, consecutiveWinsB := 0\<rparr>))"

definition checkConsecutiveWins_v2 :: "round_inputAB \<Rightarrow> arbiterAB \<Rightarrow> arbiterAB" where
  "checkConsecutiveWins_v2 inp s =
     (let s1 = (if consecutiveWinsA s \<ge> 2
                then (if choiceA inp = 1
                      then (case drawFromActionDeck_v2 1 s of (drawn, t) \<Rightarrow>
                              addActionCards_v2 True drawn t)
                      else (case drawFromNumberDeck_v2 2 s of (drawn, t) \<Rightarrow>
                              addCards_v2 False drawn t))
                     \<lparr>consecutiveWinsA := 0\<rparr>
                else s)
      in if consecutiveWinsB s1 \<ge> 2
         then (if choiceB inp = 1
               then (case drawFromActionDeck_v2 1 s1 of (drawn, t) \<Rightarrow>
                       addActionCards_v2 False drawn t)
               else (case drawFromNumberDeck_v2 2 s1 of (drawn, t) \<Rightarrow>
                       addCards_v2 True drawn t))
              \<lparr>consecutiveWinsB := 0\<rparr>
         else s1)"

text \<open>\<open>handleDrawChallenge(winningPlayer, challengingPlayer)\<close>; the challenger is always the
  other player.\<close>

definition handleDrawChallenge_v2 :: "bool \<Rightarrow> challengeAB \<Rightarrow> arbiterAB \<Rightarrow> arbiterAB" where
  "handleDrawChallenge_v2 winnerIsA ans s =
     (case ans of
        OnlyCardAB \<Rightarrow>
          (case drawFromNumberDeck_v2 1 s of (drawn, t) \<Rightarrow> addCards_v2 (\<not> winnerIsA) drawn t)
      | PlayedAB cardType \<Rightarrow>
          (case drawFromNumberDeck_v2 (drawAmount cardType) s of (drawn, t) \<Rightarrow>
             shedActionCard_v2 (\<not> winnerIsA) (addCards_v2 winnerIsA drawn t))
      | NoChallengeAB \<Rightarrow>
          s\<lparr>gameOverAB := True, winnerAB := (if winnerIsA then ''A'' else ''B'')\<rparr>)"

definition checkWinCondition_v2 :: "round_inputAB \<Rightarrow> arbiterAB \<Rightarrow> arbiterAB" where
  "checkWinCondition_v2 inp s =
     (let s1 = (if playerACards s = 0 then handleDrawChallenge_v2 True (challengeA inp) s else s)
      in if playerBCards s1 = 0 then handleDrawChallenge_v2 False (challengeB inp) s1 else s1)"

definition handleBlockedRound_v2 :: "char \<Rightarrow> round_inputAB \<Rightarrow> arbiterAB \<Rightarrow> arbiterAB" where
  "handleBlockedRound_v2 activePlayer inp s =
     checkWinCondition_v2 inp (checkConsecutiveWins_v2 inp
       (roundWon_v2 (activePlayer = CHR ''A'') s))"

definition handleNumberRound_v2 :: "round_inputAB \<Rightarrow> arbiterAB \<Rightarrow> arbiterAB" where
  "handleNumberRound_v2 inp s =
     (if playerABlocked s
      then (handleBlockedRound_v2 (CHR ''B'') inp s)\<lparr>playerABlocked := False\<rparr>
      else if playerBBlocked s
      then (handleBlockedRound_v2 (CHR ''A'') inp s)\<lparr>playerBBlocked := False\<rparr>
      else checkWinCondition_v2 inp (checkConsecutiveWins_v2 inp
             (resolveNumberBid_v2 (numA inp) (numB inp)
                (processNumberCardEffects_v2 (numA inp) (numB inp) s))))"

text \<open>The action handlers of version 2.0. \<open>player\<close> is the validated string \<open>A\<close> or \<open>B\<close>.\<close>

definition handleBlockCard_v2 :: "string \<Rightarrow> bool \<Rightarrow> arbiterAB \<Rightarrow> arbiterAB" where
  "handleBlockCard_v2 player opponent s =
     (if opponent
      then shedActionCard_v2 False (shedActionCard_v2 True (shedCard_v2 False (shedCard_v2 True s)))
      else if player = ''A''
      then shedActionCard_v2 True (s\<lparr>playerBBlocked := True\<rparr>)
      else shedActionCard_v2 False (s\<lparr>playerABlocked := True\<rparr>))"

text \<open>\<open>handleReverseCard\<close> of version 2.0: the two swaps, then the decrement.\<close>

definition handleReverseCard_v2 :: "string \<Rightarrow> arbiterAB \<Rightarrow> arbiterAB" where
  "handleReverseCard_v2 player s =
     shedActionCard_v2 (player = ''A'')
       (s\<lparr>playerACards := playerBCards s, playerBCards := playerACards s,
          playerAActionCards := playerBActionCards s,
          playerBActionCards := playerAActionCards s\<rparr>)"

definition handleColorChangeCard_v2 :: "string \<Rightarrow> arbiterAB \<Rightarrow> arbiterAB" where
  "handleColorChangeCard_v2 player s =
     shedActionCard_v2 (player = ''A'') (shedCard_v2 False (shedCard_v2 True s))"

definition handleDrawCard_v2 :: "string \<Rightarrow> int \<Rightarrow> draw_card option \<Rightarrow> arbiterAB \<Rightarrow> arbiterAB" where
  "handleDrawCard_v2 player drawAmt counter s =
     (case counter of
        Some oppCard \<Rightarrow>
          (let oppDraw = drawAmount oppCard in
           if drawAmt \<noteq> oppDraw
           then (let difference = \<bar>drawAmt - oppDraw\<bar>; loserDraw = 1 + difference in
                 case drawFromNumberDeck_v2 loserDraw s of (drawn, t) \<Rightarrow>
                   if drawAmt > oppDraw
                   then addCards_v2 (player \<noteq> ''A'') drawn
                          (shedActionCard_v2 (player \<noteq> ''A'') (shedActionCard_v2 (player = ''A'') t))
                   else addCards_v2 (player = ''A'') drawn
                          (shedActionCard_v2 (player \<noteq> ''A'') (shedActionCard_v2 (player = ''A'') t)))
           else (case drawFromNumberDeck_v2 1
                        (shedActionCard_v2 False (shedActionCard_v2 True s)) of (drawnA, t1) \<Rightarrow>
                 case drawFromNumberDeck_v2 1 t1 of (drawnB, t2) \<Rightarrow>
                   addCards_v2 False drawnB (addCards_v2 True drawnA t2)))
      | None \<Rightarrow>
          (case drawFromNumberDeck_v2 drawAmt s of (drawn, t) \<Rightarrow>
             addCards_v2 (player \<noteq> ''A'') drawn (shedActionCard_v2 (player = ''A'') t)))"

definition handleTruthCard_v2 :: "string \<Rightarrow> bool \<Rightarrow> int \<Rightarrow> arbiterAB \<Rightarrow> arbiterAB" where
  "handleTruthCard_v2 player answered choice s =
     (let s1 = (if \<not> answered
                then (if choice = 1
                      then (case drawFromActionDeck_v2 2 s of (actionDrawn, t1) \<Rightarrow>
                            case drawFromNumberDeck_v2 2 t1 of (numberDrawn, t2) \<Rightarrow>
                              addCards_v2 (player \<noteq> ''A'') numberDrawn
                                (addActionCards_v2 (player = ''A'') actionDrawn t2))
                      else (case drawFromNumberDeck_v2 5 s of (drawn, t) \<Rightarrow>
                              addCards_v2 (player \<noteq> ''A'') drawn t))
                else s)
      in shedCard_v2 (player = ''A'') (shedActionCard_v2 (player = ''A'') s1))"

definition handleDareCard_v2 :: "string \<Rightarrow> bool \<Rightarrow> arbiterAB \<Rightarrow> arbiterAB" where
  "handleDareCard_v2 player completed s =
     (if \<not> completed then s\<lparr>gameOverAB := True, winnerAB := player\<rparr>
      else shedCard_v2 (player = ''A'') (shedActionCard_v2 (player = ''A'') s))"

text \<open>The validated action string, and the dispatch of \<open>handleActionCard\<close>.\<close>

record action_inputAB =
  opponentAnswer :: bool
  opponentCard :: draw_card
  truthChoice :: int

fun handleActionCard_v2 :: "string \<Rightarrow> ActionType \<Rightarrow> action_inputAB \<Rightarrow> arbiterAB \<Rightarrow> arbiterAB" where
  "handleActionCard_v2 player BLOCK inp s = handleBlockCard_v2 player (opponentAnswer inp) s"
| "handleActionCard_v2 player SKIP inp s = handleBlockCard_v2 player (opponentAnswer inp) s"
| "handleActionCard_v2 player REVERSE inp s = handleReverseCard_v2 player s"
| "handleActionCard_v2 player COLOR_CHANGE inp s = handleColorChangeCard_v2 player s"
| "handleActionCard_v2 player WILD inp s = handleColorChangeCard_v2 player s"
| "handleActionCard_v2 player DRAW_TWO inp s =
     handleDrawCard_v2 player 2 (if opponentAnswer inp then Some (opponentCard inp) else None) s"
| "handleActionCard_v2 player DRAW_FOUR inp s =
     handleDrawCard_v2 player 4 (if opponentAnswer inp then Some (opponentCard inp) else None) s"
| "handleActionCard_v2 player TRUTH inp s =
     handleTruthCard_v2 player (opponentAnswer inp) (truthChoice inp) s"
| "handleActionCard_v2 player DARE inp s = handleDareCard_v2 player (opponentAnswer inp) s"
| "handleActionCard_v2 player UNKNOWN inp s = s"

definition manualAdjustment_v2 :: "int \<Rightarrow> int \<Rightarrow> arbiterAB \<Rightarrow> arbiterAB" where
  "manualAdjustment_v2 choice newValue s =
     (if choice = 1 then s\<lparr>playerACards := newValue\<rparr>
      else if choice = 2 then s\<lparr>playerBCards := newValue\<rparr>
      else if choice = 3 then s\<lparr>playerAActionCards := newValue\<rparr>
      else if choice = 4 then s\<lparr>playerBActionCards := newValue\<rparr>
      else if choice = 5 then s\<lparr>consecutiveWinsA := 0, consecutiveWinsB := 0\<rparr>
      else s)"

definition validAdjustment_v2 :: "int \<Rightarrow> int \<Rightarrow> bool" where
  "validAdjustment_v2 choice newValue \<longleftrightarrow>
     validInt 1 5 choice
     \<and> (choice = 1 \<or> choice = 2 \<longrightarrow> validInt 0 100 newValue)
     \<and> (choice = 3 \<or> choice = 4 \<longrightarrow> validInt 0 50 newValue)"

text \<open>One iteration of the loop of \<open>run\<close> in version 2.0, and the states it reaches.\<close>

inductive step_v2 :: "arbiterAB \<Rightarrow> arbiterAB \<Rightarrow> bool" where
  numberRound_v2:
    "\<not> gameOverAB s \<Longrightarrow> step_v2 s (handleNumberRound_v2 inp s)"
| actionCard_v2:
    "\<not> gameOverAB s \<Longrightarrow> step_v2 s (handleActionCard_v2 player actionType ainp s)"
| adjust_v2:
    "\<not> gameOverAB s \<Longrightarrow> validAdjustment_v2 choice newValue
       \<Longrightarrow> step_v2 s (manualAdjustment_v2 choice newValue s)"
| endGame_v2:
    "\<not> gameOverAB s \<Longrightarrow> step_v2 s (s\<lparr>gameOverAB := True\<rparr>)"

inductive reachable_v2 :: "arbiterAB \<Rightarrow> bool" where
  initial_v2: "reachable_v2 SplitUnoArbiterAB"
| afterStep_v2: "reachable_v2 s \<Longrightarrow> step_v2 s s' \<Longrightarrow> reachable_v2 s'"

section \<open>The web application (app/js)\<close>

subsection \<open>deck.js\<close>

text \<open>A \<open>Card\<close> has a type, a colour, a value and an id; a \<open>Deck\<close> is its array \<open>cards\<close>.
  \<open>draw()\<close> is \<open>this.cards.pop()\<close>: it removes and returns the last element, and returns
  \<open>undefined\<close> (here \<open>None\<close>) on an empty array, which it leaves empty.\<close>

datatype card_value = NumberValue int | ActionValue string

record card =
  cardType :: string
  color :: string
  cardValue :: card_value
  cardId :: string

record deck =
  deckType :: string
  cards :: "card list"

definition Deck_draw :: "deck \<Rightarrow> card option \<times> deck" where
  "Deck_draw d =
     (if cards d = [] then (None, d)
      else (Some (last (cards d)), d\<lparr>cards := butlast (cards d)\<rparr>))"

definition Deck_count :: "deck \<Rightarrow> nat" where
  "Deck_count d = length (cards d)"

text \<open>The loop of \<open>Game.drawCards(player, count, type)\<close> on the chosen deck: it stops at an
  empty deck. The result is the deck and the cards handed to \<open>player.addCard\<close>, in order.\<close>

fun drawCards :: "nat \<Rightarrow> deck \<Rightarrow> deck \<times> card list" where
  "drawCards 0 d = (d, [])"
| "drawCards (Suc k) d =
     (if Deck_count d = 0 then (d, [])
      else case Deck_draw d of
             (Some c, d') \<Rightarrow> (case drawCards k d' of (d'', cs) \<Rightarrow> (d'', c # cs))
           | (None, d') \<Rightarrow> (d', []))"

subsection \<open>game.js: the block flags\<close>

text \<open>The fields of \<open>Game\<close> that \<open>resolveAction\<close> (case \<open>block\<close>), \<open>endRound\<close> and
  \<open>startRound\<close> read and write: the two \<open>isBlocked\<close> flags, \<open>roundCount\<close> and \<open>state\<close>, and
  what \<open>startRound\<close> decides: whether the AI is asked for a card
  (\<open>tempPlayedCards.ai\<close> is set from \<open>chooseNumberCard\<close> rather than to \<open>null\<close>) and whether
  the number input of the human player is left enabled.\<close>

record gameJS =
  playerIsBlocked :: bool
  aiIsBlocked :: bool
  roundCount :: int
  stateJS :: string
  aiAsked :: bool
  numberInputEnabled :: bool

text \<open>\<open>startRound\<close> after its first test (both players blocked).\<close>

definition startRoundOpen :: "gameJS \<Rightarrow> gameJS" where
  "startRoundOpen g =
     (let g1 = g\<lparr>numberInputEnabled := True\<rparr>;
          g2 = g1\<lparr>aiAsked := \<not> aiIsBlocked g1\<rparr>
      in if playerIsBlocked g2 then g2\<lparr>numberInputEnabled := False\<rparr> else g2)"

text \<open>\<open>endRound\<close> clears both flags, counts the round and calls \<open>startRound\<close>, whose first
  test is then false.\<close>

definition endRound :: "gameJS \<Rightarrow> gameJS" where
  "endRound g =
     startRoundOpen
       (g\<lparr>playerIsBlocked := False, aiIsBlocked := False, roundCount := roundCount g + 1\<rparr>)"

definition startRound :: "gameJS \<Rightarrow> gameJS" where
  "startRound g =
     (if playerIsBlocked g \<and> aiIsBlocked g
      then endRound (g\<lparr>playerIsBlocked := False, aiIsBlocked := False\<rparr>)
      else startRoundOpen g)"

text \<open>\<open>resolveAction(user, target, card)\<close> for \<open>card.value === 'block'\<close>: the target is
  flagged, and unless the game is over the timer then runs \<open>endRound\<close>.\<close>

definition resolveActionBlock :: "bool \<Rightarrow> gameJS \<Rightarrow> gameJS" where
  "resolveActionBlock targetIsAI g =
     (let g1 = (if targetIsAI then g\<lparr>aiIsBlocked := True\<rparr> else g\<lparr>playerIsBlocked := True\<rparr>)
      in if stateJS g1 \<noteq> ''GAME_OVER'' then endRound g1 else g1)"

section \<open>Properties stated by the specification\<close>

text \<open>The invariant of the data model: no counter and no pool is negative.\<close>

definition nonNegative :: "arbiter \<Rightarrow> bool" where
  "nonNegative s \<longleftrightarrow>
     (\<forall>i < length (players s).
        0 \<le> numberCards (players s ! i) \<and> 0 \<le> actionCards (players s ! i))
     \<and> 0 \<le> numberDeckRemaining s \<and> 0 \<le> actionDeckRemaining s"

definition nonNegativeAB :: "arbiterAB \<Rightarrow> bool" where
  "nonNegativeAB s \<longleftrightarrow>
     0 \<le> playerACards s \<and> 0 \<le> playerBCards s
     \<and> 0 \<le> playerAActionCards s \<and> 0 \<le> playerBActionCards s
     \<and> 0 \<le> numberDeckRemainingAB s \<and> 0 \<le> actionDeckRemainingAB s"

text \<open>The number cards in the game: those in the hands and those in the number deck.\<close>

definition numberCardsTotal :: "arbiter \<Rightarrow> int" where
  "numberCardsTotal s = sum_list (map numberCards (players s)) + numberDeckRemaining s"

definition numberCardsTotalAB :: "arbiterAB \<Rightarrow> int" where
  "numberCardsTotalAB s = playerACards s + playerBCards s + numberDeckRemainingAB s"

text \<open>Neither pool of the second state is larger than that of the first.\<close>

definition decksNotLarger :: "arbiter \<Rightarrow> arbiter \<Rightarrow> bool" where
  "decksNotLarger s s' \<longleftrightarrow>
     numberDeckRemaining s' \<le> numberDeckRemaining s
     \<and> actionDeckRemaining s' \<le> actionDeckRemaining s"

section \<open>Basic facts about the ledger updates and the draws\<close>

lemma updPlayer_fields [simp]:
  "length (players (updPlayer i f s)) = length (players s)"
  "numberDeckRemaining (updPlayer i f s) = numberDeckRemaining s"
  "actionDeckRemaining (updPlayer i f s) = actionDeckRemaining s"
  "gameOver (updPlayer i f s) = gameOver s"
  "winner (updPlayer i f s) = winner s"
  by (simp_all add: updPlayer_def)

lemma updPlayer_nth [simp]:
  "players (updPlayer i f s) ! j
     = (if j = i \<and> i < length (players s) then f (players s ! i) else players s ! j)"
  by (cases "i < length (players s)") (auto simp: updPlayer_def nth_list_update list_update_beyond)

lemma drawFromNumberDeck_fields [simp]:
  "players (snd (drawFromNumberDeck k s)) = players s"
  "actionDeckRemaining (snd (drawFromNumberDeck k s)) = actionDeckRemaining s"
  "gameOver (snd (drawFromNumberDeck k s)) = gameOver s"
  "winner (snd (drawFromNumberDeck k s)) = winner s"
  "numberDeckRemaining (snd (drawFromNumberDeck k s))
     = numberDeckRemaining s - fst (drawFromNumberDeck k s)"
  by (simp_all add: drawFromNumberDeck_def Let_def)

lemma drawFromActionDeck_fields [simp]:
  "players (snd (drawFromActionDeck k s)) = players s"
  "numberDeckRemaining (snd (drawFromActionDeck k s)) = numberDeckRemaining s"
  "gameOver (snd (drawFromActionDeck k s)) = gameOver s"
  "winner (snd (drawFromActionDeck k s)) = winner s"
  "actionDeckRemaining (snd (drawFromActionDeck k s))
     = actionDeckRemaining s - fst (drawFromActionDeck k s)"
  by (simp_all add: drawFromActionDeck_def Let_def)

lemma drawNumberTo_eq:
  "drawNumberTo i k s = addNumber i (fst (drawFromNumberDeck k s)) (snd (drawFromNumberDeck k s))"
  by (simp add: drawNumberTo_def split: prod.split)

lemma drawActionTo_eq:
  "drawActionTo i k s = addAction i (fst (drawFromActionDeck k s)) (snd (drawFromActionDeck k s))"
  by (simp add: drawActionTo_def split: prod.split)

lemmas ledger_defs =
  addNumber_def addAction_def shedNumber_def shedAction_def setWins_def setBlocked_def
  drawNumberTo_eq drawActionTo_eq

lemma drawn_number_bounds:
  "0 \<le> k \<Longrightarrow> 0 \<le> fst (drawFromNumberDeck k s)"
  "0 \<le> k \<Longrightarrow> fst (drawFromNumberDeck k s) \<le> max 0 (numberDeckRemaining s)"
  "0 \<le> k \<Longrightarrow> fst (drawFromNumberDeck k s) \<le> k"
  by (auto simp: drawFromNumberDeck_def Let_def)

lemma drawn_action_bounds:
  "0 \<le> k \<Longrightarrow> 0 \<le> fst (drawFromActionDeck k s)"
  "0 \<le> k \<Longrightarrow> fst (drawFromActionDeck k s) \<le> max 0 (actionDeckRemaining s)"
  "0 \<le> k \<Longrightarrow> fst (drawFromActionDeck k s) \<le> k"
  by (auto simp: drawFromActionDeck_def Let_def)

text \<open>The counter updates of version 2.0.\<close>

lemmas ab_defs = addCards_v2_def addActionCards_v2_def shedCard_v2_def shedActionCard_v2_def

text \<open>A game of two players used in the examples below: the state after \<open>setupGame\<close>, and
  the same state with a given hand for each player.\<close>

lemma setupGame_state:
  "setupGame name1 name2 SplitUnoArbiter =
     \<lparr>players = [\<lparr>name = name1, numberCards = 20, actionCards = 0,
                    consecutiveWins = 0, isBlocked = False\<rparr>,
                  \<lparr>name = name2, numberCards = 20, actionCards = 0,
                    consecutiveWins = 0, isBlocked = False\<rparr>],
      numberDeckRemaining = 68, actionDeckRemaining = 32, gameOver = False, winner = []\<rparr>"
  by (simp add: setupGame_def SplitUnoArbiter_def Player_def INITIAL_CARDS_def
      INITIAL_NUMBER_DECK_def INITIAL_ACTION_DECK_def)

section \<open>The statements of the specification, checked on the code\<close>

subsection \<open>C6: the draws are clamped to the pool\<close>

text \<open>C6. For a pool \<open>r \<ge> 0\<close> and a request \<open>n \<ge> 0\<close>, \<open>drawFromNumberDeck(n)\<close> and
  \<open>drawFromActionDeck(n)\<close> return \<open>min(n, r)\<close>, take exactly the returned amount from their
  pool and change nothing else, leave the pool non-negative, and return 0 from an empty
  pool. The functions are total: a request beyond the pool is a partial draw, not a
  failure. The same holds for the two functions of version 2.0.\<close>

theorem C6_draw_clamped:
  assumes "0 \<le> numberDeckRemaining s" and "0 \<le> actionDeckRemaining s"
    and "0 \<le> numberDeckRemainingAB t" and "0 \<le> actionDeckRemainingAB t"
    and "0 \<le> n"
  shows "fst (drawFromNumberDeck n s) = min n (numberDeckRemaining s)
       \<and> snd (drawFromNumberDeck n s)
           = s\<lparr>numberDeckRemaining := numberDeckRemaining s - fst (drawFromNumberDeck n s)\<rparr>
       \<and> 0 \<le> numberDeckRemaining (snd (drawFromNumberDeck n s))
       \<and> fst (drawFromActionDeck n s) = min n (actionDeckRemaining s)
       \<and> snd (drawFromActionDeck n s)
           = s\<lparr>actionDeckRemaining := actionDeckRemaining s - fst (drawFromActionDeck n s)\<rparr>
       \<and> 0 \<le> actionDeckRemaining (snd (drawFromActionDeck n s))
       \<and> fst (drawFromNumberDeck_v2 n t) = min n (numberDeckRemainingAB t)
       \<and> snd (drawFromNumberDeck_v2 n t)
           = t\<lparr>numberDeckRemainingAB :=
                 numberDeckRemainingAB t - fst (drawFromNumberDeck_v2 n t)\<rparr>
       \<and> 0 \<le> numberDeckRemainingAB (snd (drawFromNumberDeck_v2 n t))
       \<and> fst (drawFromActionDeck_v2 n t) = min n (actionDeckRemainingAB t)
       \<and> snd (drawFromActionDeck_v2 n t)
           = t\<lparr>actionDeckRemainingAB :=
                 actionDeckRemainingAB t - fst (drawFromActionDeck_v2 n t)\<rparr>
       \<and> 0 \<le> actionDeckRemainingAB (snd (drawFromActionDeck_v2 n t))"
  using assms
  by (auto simp: drawFromNumberDeck_def drawFromActionDeck_def
      drawFromNumberDeck_v2_def drawFromActionDeck_v2_def Let_def min_def)

text \<open>A request of 5 from a number pool of 3 and an action pool of 0, in both versions:
  3 number cards and no action card are drawn, and both pools are then empty.\<close>

theorem C6_draw_clamped_witness:
  "fst (drawFromNumberDeck 5
          ((setupGame ''Ann'' ''Bob'' SplitUnoArbiter)
             \<lparr>numberDeckRemaining := 3, actionDeckRemaining := 0\<rparr>)) = 3
   \<and> numberDeckRemaining (snd (drawFromNumberDeck 5
          ((setupGame ''Ann'' ''Bob'' SplitUnoArbiter)
             \<lparr>numberDeckRemaining := 3, actionDeckRemaining := 0\<rparr>))) = 0
   \<and> fst (drawFromActionDeck 5
          ((setupGame ''Ann'' ''Bob'' SplitUnoArbiter)
             \<lparr>numberDeckRemaining := 3, actionDeckRemaining := 0\<rparr>)) = 0
   \<and> fst (drawFromNumberDeck_v2 5
          (SplitUnoArbiterAB\<lparr>numberDeckRemainingAB := 3, actionDeckRemainingAB := 0\<rparr>)) = 3
   \<and> fst (drawFromActionDeck_v2 5
          (SplitUnoArbiterAB\<lparr>numberDeckRemainingAB := 3, actionDeckRemainingAB := 0\<rparr>)) = 0"
  using C6_draw_clamped
    [of "(setupGame ''Ann'' ''Bob'' SplitUnoArbiter)
           \<lparr>numberDeckRemaining := 3, actionDeckRemaining := 0\<rparr>"
        "SplitUnoArbiterAB\<lparr>numberDeckRemainingAB := 3, actionDeckRemainingAB := 0\<rparr>" 5]
  by (simp add: setupGame_state SplitUnoArbiterAB_def)

subsection \<open>C9: a refused Dare ends the game and changes nothing else\<close>

text \<open>C9. When a Dare is played and the target refuses, \<open>gameOver\<close> becomes true and \<open>winner\<close>
  becomes the name of the actor; the list of players (every number count, action count,
  streak and blocked flag) and both pools are unchanged. The dispatch of
  \<open>handleActionCard\<close> on \<open>DARE\<close> with a refusal is this handler.\<close>

theorem C9_dare_refusal:
  "handleDareCard playerIdx targetIdx False s
     = s\<lparr>gameOver := True, winner := name (players s ! playerIdx)\<rparr>
   \<and> handleActionCard playerIdx DARE (inp\<lparr>answer := False\<rparr>) s
     = handleDareCard playerIdx (target inp) False s
   \<and> gameOver (handleDareCard playerIdx targetIdx False s)
   \<and> winner (handleDareCard playerIdx targetIdx False s) = name (players s ! playerIdx)
   \<and> players (handleDareCard playerIdx targetIdx False s) = players s
   \<and> numberDeckRemaining (handleDareCard playerIdx targetIdx False s) = numberDeckRemaining s
   \<and> actionDeckRemaining (handleDareCard playerIdx targetIdx False s) = actionDeckRemaining s"
  by (simp add: handleDareCard_def)

subsection \<open>C7: a DrawN countered with the other DrawN\<close>

text \<open>\<open>handleActionCard\<close> never checks that the card named by the operator is held, and
  \<open>setupGame\<close> gives both players 0 action cards. So a +2 countered with a +4 can be
  entered right after the setup; it is one iteration of the loop of \<open>run\<close>.\<close>

lemma counter_after_setup_is_a_step:
  "step (setupGame ''Ann'' ''Bob'' SplitUnoArbiter)
     (handleActionCard 0 DRAW_TWO
        \<lparr>target = 1, answer = True, counterCard = PlusFour, penaltyChoice = 1\<rparr>
        (setupGame ''Ann'' ''Bob'' SplitUnoArbiter))"
  by (rule step.actionCard)
     (simp_all add: setupGame_state validActionInput_def validPlayerIndex_def validInt_def)

text \<open>C7 as stated (both the actor's and the target's action count decrease by 1) fails in
  that state. Ann plays +2 and Bob counters with +4: Ann draws 3 cards, and both action
  counts, which were 0, are 0 afterwards, not -1. The same happens in version 2.0 from its
  initial state.\<close>

theorem C7_counter_without_action_cards:
  "handleActionCard 0 DRAW_TWO
       \<lparr>target = 1, answer = True, counterCard = PlusFour, penaltyChoice = 1\<rparr>
       (setupGame ''Ann'' ''Bob'' SplitUnoArbiter)
     = handleDrawCard 0 2 1 (Some PlusFour) (setupGame ''Ann'' ''Bob'' SplitUnoArbiter)
   \<and> numberCards (players (handleDrawCard 0 2 1 (Some PlusFour)
        (setupGame ''Ann'' ''Bob'' SplitUnoArbiter)) ! 0) = 23
   \<and> numberCards (players (handleDrawCard 0 2 1 (Some PlusFour)
        (setupGame ''Ann'' ''Bob'' SplitUnoArbiter)) ! 1) = 20
   \<and> actionCards (players (setupGame ''Ann'' ''Bob'' SplitUnoArbiter) ! 0) = 0
   \<and> actionCards (players (setupGame ''Ann'' ''Bob'' SplitUnoArbiter) ! 1) = 0
   \<and> actionCards (players (handleDrawCard 0 2 1 (Some PlusFour)
        (setupGame ''Ann'' ''Bob'' SplitUnoArbiter)) ! 0) = 0
   \<and> actionCards (players (handleDrawCard 0 2 1 (Some PlusFour)
        (setupGame ''Ann'' ''Bob'' SplitUnoArbiter)) ! 1) = 0
   \<and> actionCards (players (handleDrawCard 0 2 1 (Some PlusFour)
        (setupGame ''Ann'' ''Bob'' SplitUnoArbiter)) ! 0)
       \<noteq> actionCards (players (setupGame ''Ann'' ''Bob'' SplitUnoArbiter) ! 0) - 1
   \<and> actionCards (players (handleDrawCard 0 2 1 (Some PlusFour)
        (setupGame ''Ann'' ''Bob'' SplitUnoArbiter)) ! 1)
       \<noteq> actionCards (players (setupGame ''Ann'' ''Bob'' SplitUnoArbiter) ! 1) - 1
   \<and> playerACards (handleDrawCard_v2 ''A'' 2 (Some PlusFour) SplitUnoArbiterAB) = 23
   \<and> playerAActionCards (handleDrawCard_v2 ''A'' 2 (Some PlusFour) SplitUnoArbiterAB)
       \<noteq> playerAActionCards SplitUnoArbiterAB - 1
   \<and> playerBActionCards (handleDrawCard_v2 ''A'' 2 (Some PlusFour) SplitUnoArbiterAB)
       \<noteq> playerBActionCards SplitUnoArbiterAB - 1"
  by code_simp

text \<open>C7, amended. When a +2 or +4 is countered with the other card, the player who
  declared the smaller value draws \<open>drawFromNumberDeck(1 + |N - N'|)\<close>, which is a draw of 3,
  the number count of the player who won the exchange is unchanged, and the action count of
  the actor and that of the target both become \<open>max(0, count - 1)\<close>: one less for a player
  who holds at least one action card, and still 0 for a player who holds none. The first
  conjunct is \<open>handleDrawCard\<close> of version 3.0, the second that of version 2.0, where the
  actor is \<open>A\<close> or \<open>B\<close> and the target the other player.\<close>

theorem C7_unequal_counter:
  assumes "playerIdx < length (players s)" and "targetIdx < length (players s)"
    and "targetIdx \<noteq> playerIdx"
    and "amount = 2 \<or> amount = 4" and "drawAmount oppCard \<noteq> amount"
    and "player = ''A'' \<or> player = ''B''"
  shows "(let s' = handleDrawCard playerIdx amount targetIdx (Some oppCard) s;
             drawn = fst (drawFromNumberDeck (1 + \<bar>amount - drawAmount oppCard\<bar>) s);
             loser = (if amount < drawAmount oppCard then playerIdx else targetIdx);
             other = (if amount < drawAmount oppCard then targetIdx else playerIdx)
         in numberCards (players s' ! loser) = numberCards (players s ! loser) + drawn
          \<and> numberCards (players s' ! other) = numberCards (players s ! other)
          \<and> actionCards (players s' ! playerIdx) = max 0 (actionCards (players s ! playerIdx) - 1)
          \<and> actionCards (players s' ! targetIdx) = max 0 (actionCards (players s ! targetIdx) - 1)
          \<and> (1 \<le> actionCards (players s ! playerIdx)
               \<longrightarrow> actionCards (players s' ! playerIdx) = actionCards (players s ! playerIdx) - 1)
          \<and> (1 \<le> actionCards (players s ! targetIdx)
               \<longrightarrow> actionCards (players s' ! targetIdx) = actionCards (players s ! targetIdx) - 1)
          \<and> (actionCards (players s ! playerIdx) \<le> 0
               \<longrightarrow> actionCards (players s' ! playerIdx) = 0)
          \<and> (actionCards (players s ! targetIdx) \<le> 0
               \<longrightarrow> actionCards (players s' ! targetIdx) = 0)
          \<and> numberDeckRemaining s' = numberDeckRemaining s - drawn
          \<and> actionDeckRemaining s' = actionDeckRemaining s
          \<and> 1 + \<bar>amount - drawAmount oppCard\<bar> = 3)
       \<and> (let t' = handleDrawCard_v2 player amount (Some oppCard) t;
               drawn = fst (drawFromNumberDeck_v2 (1 + \<bar>amount - drawAmount oppCard\<bar>) t);
               actorLoses = (amount < drawAmount oppCard)
           in playerACards t'
                = playerACards t + (if (player = ''A'') = actorLoses then drawn else 0)
            \<and> playerBCards t'
                = playerBCards t + (if (player = ''B'') = actorLoses then drawn else 0)
            \<and> playerAActionCards t' = max 0 (playerAActionCards t - 1)
            \<and> playerBActionCards t' = max 0 (playerBActionCards t - 1)
            \<and> (1 \<le> playerAActionCards t
                 \<longrightarrow> playerAActionCards t' = playerAActionCards t - 1)
            \<and> (1 \<le> playerBActionCards t
                 \<longrightarrow> playerBActionCards t' = playerBActionCards t - 1)
            \<and> (playerAActionCards t \<le> 0 \<longrightarrow> playerAActionCards t' = 0)
            \<and> (playerBActionCards t \<le> 0 \<longrightarrow> playerBActionCards t' = 0)
            \<and> numberDeckRemainingAB t' = numberDeckRemainingAB t - drawn
            \<and> actionDeckRemainingAB t' = actionDeckRemainingAB t)"
  using assms
  by (cases oppCard)
     (auto simp: handleDrawCard_def Let_def ledger_defs handleDrawCard_v2_def ab_defs
        drawFromNumberDeck_v2_def split: prod.splits)

text \<open>The example of the specification: each player holds one action card, the first
  player plays +2 and the second counters with +4. The first player draws 3 cards from
  the deck of 68 and both action cards are gone; the same in version 2.0 with actor A.\<close>

theorem C7_unequal_counter_witness:
  "numberCards (players (handleDrawCard 0 2 1 (Some PlusFour)
       (manualAdjustment 1 2 1 (manualAdjustment 0 2 1
          (setupGame ''Ann'' ''Bob'' SplitUnoArbiter)))) ! 0) = 23
   \<and> numberCards (players (handleDrawCard 0 2 1 (Some PlusFour)
       (manualAdjustment 1 2 1 (manualAdjustment 0 2 1
          (setupGame ''Ann'' ''Bob'' SplitUnoArbiter)))) ! 1) = 20
   \<and> actionCards (players (handleDrawCard 0 2 1 (Some PlusFour)
       (manualAdjustment 1 2 1 (manualAdjustment 0 2 1
          (setupGame ''Ann'' ''Bob'' SplitUnoArbiter)))) ! 0) = 0
   \<and> actionCards (players (handleDrawCard 0 2 1 (Some PlusFour)
       (manualAdjustment 1 2 1 (manualAdjustment 0 2 1
          (setupGame ''Ann'' ''Bob'' SplitUnoArbiter)))) ! 1) = 0
   \<and> numberDeckRemaining (handleDrawCard 0 2 1 (Some PlusFour)
       (manualAdjustment 1 2 1 (manualAdjustment 0 2 1
          (setupGame ''Ann'' ''Bob'' SplitUnoArbiter)))) = 65
   \<and> playerACards (handleDrawCard_v2 ''A'' 2 (Some PlusFour)
       (manualAdjustment_v2 4 1 (manualAdjustment_v2 3 1 SplitUnoArbiterAB))) = 23
   \<and> playerBCards (handleDrawCard_v2 ''A'' 2 (Some PlusFour)
       (manualAdjustment_v2 4 1 (manualAdjustment_v2 3 1 SplitUnoArbiterAB))) = 20
   \<and> playerAActionCards (handleDrawCard_v2 ''A'' 2 (Some PlusFour)
       (manualAdjustment_v2 4 1 (manualAdjustment_v2 3 1 SplitUnoArbiterAB))) = 0
   \<and> playerBActionCards (handleDrawCard_v2 ''A'' 2 (Some PlusFour)
       (manualAdjustment_v2 4 1 (manualAdjustment_v2 3 1 SplitUnoArbiterAB))) = 0"
  using C7_unequal_counter
    [of 0 "manualAdjustment 1 2 1 (manualAdjustment 0 2 1
             (setupGame ''Ann'' ''Bob'' SplitUnoArbiter))" 1 2 PlusFour "''A''"
        "manualAdjustment_v2 4 1 (manualAdjustment_v2 3 1 SplitUnoArbiterAB)"]
  by (simp add: Let_def manualAdjustment_def manualAdjustment_v2_def setupGame_state
      SplitUnoArbiterAB_def drawFromNumberDeck_def drawFromNumberDeck_v2_def)

subsection \<open>C3: the Reverse handler\<close>

text \<open>What \<open>handleReverseCard\<close> of version 3.0 computes. The hands are swapped, the actor's
  action count is decremented, and the hands are swapped again: the two swaps cancel, and
  the decrement lands on the count that came from the target. The net effect on two
  different players is that the target loses one action card and nothing else changes.\<close>

lemma handleReverseCard_net_effect:
  assumes "playerIdx < length (players s)" and "targetIdx < length (players s)"
    and "targetIdx \<noteq> playerIdx"
  shows "handleReverseCard playerIdx targetIdx s = shedAction targetIdx s"
proof -
  have "players (handleReverseCard playerIdx targetIdx s) = players (shedAction targetIdx s)"
    using assms
    by (intro nth_equalityI)
       (auto simp: handleReverseCard_def swapNumberCards_def swapActionCards_def
          Let_def ledger_defs)
  moreover have "numberDeckRemaining (handleReverseCard playerIdx targetIdx s)
                   = numberDeckRemaining (shedAction targetIdx s)"
    and "actionDeckRemaining (handleReverseCard playerIdx targetIdx s)
                   = actionDeckRemaining (shedAction targetIdx s)"
    and "gameOver (handleReverseCard playerIdx targetIdx s) = gameOver (shedAction targetIdx s)"
    and "winner (handleReverseCard playerIdx targetIdx s) = winner (shedAction targetIdx s)"
    by (simp_all add: handleReverseCard_def swapNumberCards_def swapActionCards_def
          Let_def ledger_defs)
  ultimately show ?thesis
    by (cases "handleReverseCard playerIdx targetIdx s"; cases "shedAction targetIdx s") simp
qed

text \<open>What \<open>handleReverseCard\<close> of version 2.0 computes: the hands are exchanged and the actor
  then sheds an action card from the hand received.\<close>

lemma handleReverseCard_v2_effect:
  "handleReverseCard_v2 ''A'' t
     = t\<lparr>playerACards := playerBCards t, playerBCards := playerACards t,
         playerAActionCards := max 0 (playerBActionCards t - 1),
         playerBActionCards := playerAActionCards t\<rparr>"
  by (simp add: handleReverseCard_v2_def ab_defs)

text \<open>C3 states that Reverse removes one action card from the actor's hand and then
  exchanges the hands, so that the actor ends with the target's old counts and the target
  with the actor's old counts and one action card less. The code does not do this. With
  Ann holding 5 number and 2 action cards and Bob holding 7 and 3, Ann plays Reverse on
  Bob: C3 expects Ann at (7, 3) and Bob at (5, 1). Version 3.0 leaves Ann at (5, 2) and
  puts Bob at (7, 2): no hand is exchanged and the target pays the card. Version 2.0
  gives A (7, 2) and B (5, 2): the hands are exchanged and the card is taken from the
  hand the actor receives.\<close>

theorem C3_reverse_counterexample:
  "(let s = manualAdjustment 1 2 3 (manualAdjustment 1 1 7
              (manualAdjustment 0 2 2 (manualAdjustment 0 1 5
                 (setupGame ''Ann'' ''Bob'' SplitUnoArbiter))));
        s' = handleReverseCard 0 1 s
    in (numberCards (players s ! 0), actionCards (players s ! 0)) = (5, 2)
     \<and> (numberCards (players s ! 1), actionCards (players s ! 1)) = (7, 3)
     \<and> (numberCards (players s' ! 0), actionCards (players s' ! 0)) = (5, 2)
     \<and> (numberCards (players s' ! 1), actionCards (players s' ! 1)) = (7, 2)
     \<and> (numberCards (players s' ! 0), actionCards (players s' ! 0)) \<noteq> (7, 3)
     \<and> (numberCards (players s' ! 1), actionCards (players s' ! 1)) \<noteq> (5, 1))
   \<and> (let t = SplitUnoArbiterAB\<lparr>playerACards := 5, playerAActionCards := 2,
                                 playerBCards := 7, playerBActionCards := 3\<rparr>;
            t' = handleReverseCard_v2 ''A'' t
        in (playerACards t', playerAActionCards t') = (7, 2)
         \<and> (playerBCards t', playerBActionCards t') = (5, 2))"
  by code_simp

subsection \<open>The tie branch of the number round\<close>

lemma tiedShed_fields [simp]:
  "length (players (tiedShed ws s)) = length (players s)"
  "numberDeckRemaining (tiedShed ws s) = numberDeckRemaining s"
  "actionDeckRemaining (tiedShed ws s) = actionDeckRemaining s"
  by (induction ws arbitrary: s) (simp_all add: ledger_defs)

lemma tiedShed_other:
  "i \<notin> set ws \<Longrightarrow> players (tiedShed ws s) ! i = players s ! i"
  by (induction ws arbitrary: s) (auto simp: ledger_defs)

lemma allDraw_length [simp]: "length (players (allDraw js s)) = length (players s)"
  by (induction js arbitrary: s) (simp_all add: ledger_defs)

text \<open>The loop \<open>for (auto& p : players)\<close> of the tie branch gives one card to every index it
  visits while the deck lasts; it does not look at \<open>playedCards\<close>.\<close>

lemma allDraw_numberCards:
  assumes "distinct js" and "int (length js) \<le> numberDeckRemaining s"
    and "i < length (players s)"
  shows "numberCards (players (allDraw js s) ! i)
           = numberCards (players s ! i) + (if i \<in> set js then 1 else 0)"
  using assms
proof (induction js arbitrary: s)
  case Nil
  then show ?case by simp
next
  case (Cons j js)
  have one: "fst (drawFromNumberDeck 1 s) = 1"
    using Cons.prems(2) by (simp add: drawFromNumberDeck_def)
  have "numberCards (players (allDraw js (drawNumberTo j 1 s)) ! i)
          = numberCards (players (drawNumberTo j 1 s) ! i) + (if i \<in> set js then 1 else 0)"
    using Cons.prems one by (intro Cons.IH) (simp_all add: ledger_defs)
  then show ?case
    using Cons.prems one by (auto simp: ledger_defs)
qed

text \<open>Hence in a tie every player who is not among the tied ones, blocked or not, ends
  the branch with one card more, when the deck holds a card for each player.\<close>

lemma resolveTie_gives_every_player_a_card:
  assumes "int (length (players s)) \<le> numberDeckRemaining s"
    and "i < length (players s)" and "i \<notin> set winners"
  shows "numberCards (players (resolveTie winners s) ! i) = numberCards (players s ! i) + 1"
  using assms by (simp add: resolveTie_def allDraw_numberCards tiedShed_other)

text \<open>The tied players themselves shed one card, lose their streak and draw one card.\<close>

lemma tiedShed_tied:
  assumes "i \<in> set ws" and "distinct ws" and "i < length (players s)"
  shows "numberCards (players (tiedShed ws s) ! i) = max 0 (numberCards (players s ! i) - 1)
       \<and> consecutiveWins (players (tiedShed ws s) ! i) = 0"
  using assms
proof (induction ws arbitrary: s)
  case Nil
  then show ?case by simp
next
  case (Cons w ws)
  show ?case
  proof (cases "w = i")
    case True
    then have "i \<notin> set ws" using Cons.prems(2) by simp
    then show ?thesis
      using True Cons.prems(3) by (simp add: tiedShed_other ledger_defs)
  next
    case False
    then have "i \<in> set ws" and "distinct ws" using Cons.prems by simp_all
    from Cons.IH [OF this, of "setWins w 0 (shedNumber w s)"] False Cons.prems(3)
    show ?thesis by (simp add: ledger_defs)
  qed
qed

lemma allDraw_consecutiveWins [simp]:
  "consecutiveWins (players (allDraw js s) ! i) = consecutiveWins (players s ! i)"
  by (induction js arbitrary: s) (simp_all add: ledger_defs)

lemma resolveTie_tied_player:
  assumes "int (length (players s)) \<le> numberDeckRemaining s"
    and "i < length (players s)" and "i \<in> set winners" and "distinct winners"
  shows "numberCards (players (resolveTie winners s) ! i)
           = max 0 (numberCards (players s ! i) - 1) + 1
       \<and> consecutiveWins (players (resolveTie winners s) ! i) = 0"
  using assms by (simp add: resolveTie_def allDraw_numberCards tiedShed_tied)


subsection \<open>C5: the win challenge\<close>

text \<open>The two outcomes of \<open>handleDrawChallenge\<close>. Without a challenge the game ends and the
  player at zero is the winner; nothing else changes.\<close>

lemma handleDrawChallenge_uncontested:
  "handleDrawChallenge winnerIdx NoChallenge s
     = s\<lparr>gameOver := True, winner := name (players s ! winnerIdx)\<rparr>"
  by simp

text \<open>With a challenge the player draws \<open>drawFromNumberDeck(N)\<close>, the challenger sheds one
  action card, and neither \<open>gameOver\<close> nor \<open>winner\<close> is touched: no win is declared.\<close>

lemma handleDrawChallenge_challenged:
  assumes "winnerIdx < length (players s)" and "challengerIdx < length (players s)"
    and "challengerIdx \<noteq> winnerIdx"
  shows "numberCards (players (handleDrawChallenge winnerIdx (ChallengeBy challengerIdx c) s)
                        ! winnerIdx)
           = numberCards (players s ! winnerIdx) + fst (drawFromNumberDeck (drawAmount c) s)"
    and "actionCards (players (handleDrawChallenge winnerIdx (ChallengeBy challengerIdx c) s)
                        ! challengerIdx)
           = max 0 (actionCards (players s ! challengerIdx) - 1)"
    and "numberDeckRemaining (handleDrawChallenge winnerIdx (ChallengeBy challengerIdx c) s)
           = numberDeckRemaining s - fst (drawFromNumberDeck (drawAmount c) s)"
    and "gameOver (handleDrawChallenge winnerIdx (ChallengeBy challengerIdx c) s) = gameOver s"
    and "winner (handleDrawChallenge winnerIdx (ChallengeBy challengerIdx c) s) = winner s"
  using assms by (simp_all add: ledger_defs)

text \<open>The state of this example arises in play. Bob plays Truth on Ann, who does not answer,
  and takes two action cards (Ann draws two number cards); Ann then plays Truth on Bob 22
  times, Bob never answers and draws five cards each time: the number deck is empty after
  the fourteenth and Ann's hand after the last. In the next number round Ann declares 9
  and Bob 1, and Bob challenges with +2.\<close>

lemma truth_step:
  assumes "0 \<le> d"
  shows "handleActionCard 0 TRUTH
           \<lparr>target = 1, answer = False, counterCard = PlusTwo, penaltyChoice = 2\<rparr>
           \<lparr>players =
              [\<lparr>name = ''Ann'', numberCards = a, actionCards = 0,
                 consecutiveWins = 0, isBlocked = False\<rparr>,
               \<lparr>name = ''Bob'', numberCards = b, actionCards = 1,
                 consecutiveWins = 0, isBlocked = False\<rparr>],
            numberDeckRemaining = d, actionDeckRemaining = 30,
            gameOver = False, winner = []\<rparr>
       = \<lparr>players =
              [\<lparr>name = ''Ann'', numberCards = max 0 (a - 1), actionCards = 0,
                 consecutiveWins = 0, isBlocked = False\<rparr>,
               \<lparr>name = ''Bob'', numberCards = b + min 5 d, actionCards = 1,
                 consecutiveWins = 0, isBlocked = False\<rparr>],
            numberDeckRemaining = d - min 5 d, actionDeckRemaining = 30,
            gameOver = False, winner = []\<rparr>"
  using assms
  by (auto simp: handleTruthCard_def Let_def ledger_defs updPlayer_def drawFromNumberDeck_def)

lemma truth_first:
  "handleActionCard 1 TRUTH
           \<lparr>target = 0, answer = False, counterCard = PlusTwo, penaltyChoice = 1\<rparr>
           (setupGame ''Ann'' ''Bob'' SplitUnoArbiter)
       = \<lparr>players =
              [\<lparr>name = ''Ann'', numberCards = 22, actionCards = 0,
                 consecutiveWins = 0, isBlocked = False\<rparr>,
               \<lparr>name = ''Bob'', numberCards = 19, actionCards = 1,
                 consecutiveWins = 0, isBlocked = False\<rparr>],
            numberDeckRemaining = 66, actionDeckRemaining = 30,
            gameOver = False, winner = []\<rparr>"
  by code_simp

lemma truth_repeated:
  "reachable
     \<lparr>players =
        [\<lparr>name = ''Ann'', numberCards = max 0 (22 - int k), actionCards = 0,
           consecutiveWins = 0, isBlocked = False\<rparr>,
         \<lparr>name = ''Bob'', numberCards = 19 + min (5 * int k) 66, actionCards = 1,
           consecutiveWins = 0, isBlocked = False\<rparr>],
      numberDeckRemaining = 66 - min (5 * int k) 66, actionDeckRemaining = 30,
      gameOver = False, winner = []\<rparr>"
proof (induction k)
  case 0
  have "step (setupGame ''Ann'' ''Bob'' SplitUnoArbiter)
          (handleActionCard 1 TRUTH
             \<lparr>target = 0, answer = False, counterCard = PlusTwo, penaltyChoice = 1\<rparr>
             (setupGame ''Ann'' ''Bob'' SplitUnoArbiter))"
    by (rule step.actionCard)
       (simp_all add: setupGame_state validActionInput_def validPlayerIndex_def validInt_def)
  then have "reachable (handleActionCard 1 TRUTH
             \<lparr>target = 0, answer = False, counterCard = PlusTwo, penaltyChoice = 1\<rparr>
             (setupGame ''Ann'' ''Bob'' SplitUnoArbiter))"
    using reachable.afterSetup reachable.afterStep by blast
  then show ?case
    by (simp only: truth_first) simp
next
  case (Suc k)
  let ?s = "\<lparr>players =
        [\<lparr>name = ''Ann'', numberCards = max 0 (22 - int k), actionCards = 0,
           consecutiveWins = 0, isBlocked = False\<rparr>,
         \<lparr>name = ''Bob'', numberCards = 19 + min (5 * int k) 66, actionCards = 1,
           consecutiveWins = 0, isBlocked = False\<rparr>],
      numberDeckRemaining = 66 - min (5 * int k) 66, actionDeckRemaining = 30,
      gameOver = False, winner = []\<rparr>"
  let ?inp = "\<lparr>target = 1, answer = False, counterCard = PlusTwo, penaltyChoice = 2\<rparr>"
  have "step ?s (handleActionCard 0 TRUTH ?inp ?s)"
    by (rule step.actionCard)
       (simp_all add: validActionInput_def validPlayerIndex_def validInt_def)
  with Suc have "reachable (handleActionCard 0 TRUTH ?inp ?s)"
    by (rule reachable.afterStep)
  moreover have "0 \<le> 66 - min (5 * int k) 66"
    by simp
  ultimately have "reachable
     \<lparr>players =
        [\<lparr>name = ''Ann'', numberCards = max 0 (max 0 (22 - int k) - 1), actionCards = 0,
           consecutiveWins = 0, isBlocked = False\<rparr>,
         \<lparr>name = ''Bob'',
           numberCards = 19 + min (5 * int k) 66 + min 5 (66 - min (5 * int k) 66),
           actionCards = 1, consecutiveWins = 0, isBlocked = False\<rparr>],
      numberDeckRemaining = 66 - min (5 * int k) 66 - min 5 (66 - min (5 * int k) 66),
      actionDeckRemaining = 30, gameOver = False, winner = []\<rparr>"
    by (simp only: truth_step)
  moreover have "max 0 (max 0 (22 - int k) - 1) = max 0 (22 - int (Suc k))"
    and "19 + min (5 * int k) 66 + min 5 (66 - min (5 * int k) 66)
           = 19 + min (5 * int (Suc k)) 66"
    and "66 - min (5 * int k) 66 - min 5 (66 - min (5 * int k) 66)
           = 66 - min (5 * int (Suc k)) 66"
    by (simp_all add: min_def max_def)
  ultimately show ?case
    by (simp only:)
qed

lemma challenge_example_reachable:
  "reachable
     \<lparr>players =
        [\<lparr>name = ''Ann'', numberCards = 0, actionCards = 0,
           consecutiveWins = 0, isBlocked = False\<rparr>,
         \<lparr>name = ''Bob'', numberCards = 85, actionCards = 1,
           consecutiveWins = 0, isBlocked = False\<rparr>],
      numberDeckRemaining = 0, actionDeckRemaining = 30,
      gameOver = False, winner = []\<rparr>"
  using truth_repeated [of 22] by simp

lemma challenge_example_input_valid:
  "validRoundInput 2
     \<lparr>cardOf = (\<lambda>i. if i = 0 then 9 else 1), stealFrom = (\<lambda>i. 1 - i),
      penaltyTo = (\<lambda>i. 1 - i), bonusChoice = (\<lambda>i. 1),
      challengeOf = (\<lambda>i. ChallengeBy (1 - i) PlusTwo)\<rparr>"
  by (auto simp: validRoundInput_def validInt_def validPlayerIndex_def
      MIN_CARD_NUMBER_def MAX_CARD_NUMBER_def)

text \<open>C5 states that after a challenge the evaluator enters the challenge phase again for
  the same player whenever that player is still at zero after the challenge draw, as the
  rules in ruleset.md say ("If the winning player survives the challenge (still at 0 cards
  after drawing), another challenge phase begins"). \<open>handleDrawChallenge\<close> returns after the
  draw and \<open>checkWinCondition\<close> goes on to the next player. In the state reached above the
  number deck is empty, Ann holds no card and Bob holds his only action card. Ann wins
  the round with 9 against 1 and is found at zero; Bob challenges with +2: Ann draws
  nothing and is still at zero, Bob's action card is gone, and \<open>handleNumberRound\<close> returns
  with the game not over: Ann has no cards, nobody can challenge her any more, and she is
  not the winner. Only the evaluation at the end of a later number round looks at her
  again; run at once on the same state, without a challenge, it declares her the winner.\<close>

theorem C5_no_second_challenge_phase:
  "(let s = \<lparr>players =
               [\<lparr>name = ''Ann'', numberCards = 0, actionCards = 0,
                  consecutiveWins = 0, isBlocked = False\<rparr>,
                \<lparr>name = ''Bob'', numberCards = 85, actionCards = 1,
                  consecutiveWins = 0, isBlocked = False\<rparr>],
             numberDeckRemaining = 0, actionDeckRemaining = 30,
             gameOver = False, winner = []\<rparr>;
        inp = \<lparr>cardOf = (\<lambda>i. if i = 0 then 9 else 1), stealFrom = (\<lambda>i. 1 - i),
               penaltyTo = (\<lambda>i. 1 - i), bonusChoice = (\<lambda>i. 1),
               challengeOf = (\<lambda>i. ChallengeBy (1 - i) PlusTwo)\<rparr>;
        s1 = handleNumberRound inp s;
        s2 = checkWinCondition (\<lambda>i. NoChallenge) s1
    in map numberCards (players s1) = [0, 85]
     \<and> map actionCards (players s1) = [0, 0]
     \<and> map consecutiveWins (players s1) = [1, 0]
     \<and> numberDeckRemaining s1 = 0
     \<and> \<not> gameOver s1 \<and> winner s1 = []
     \<and> gameOver s2 \<and> winner s2 = ''Ann'')"
  by code_simp

subsection \<open>C2: the steal of the card 0\<close>

lemma sum_list_int_update:
  fixes xs :: "int list"
  shows "k < length xs \<Longrightarrow> sum_list (xs[k := x]) = sum_list xs + x - xs ! k"
proof (induction xs arbitrary: k)
  case Nil
  then show ?case by simp
next
  case (Cons a xs)
  then show ?case by (cases k) simp_all
qed

lemma numberCardsTotal_addNumber:
  "i < length (players s) \<Longrightarrow> numberCardsTotal (addNumber i k s) = numberCardsTotal s + k"
  by (simp add: numberCardsTotal_def addNumber_def updPlayer_def map_update sum_list_int_update)

text \<open>The steal in version 3.0: from a target with a card, one card moves to the player
  who declared 0 and nothing else changes; from a target without a card, nothing changes
  at all. The number cards in the game are the same before and after.\<close>

lemma card0Effect_transfer:
  assumes "i < length (players s)" and "validPlayerIndex (length (players s)) i (stealFrom inp i)"
    and "0 < numberCards (players s ! stealFrom inp i)"
  shows "numberCards (players (card0Effect inp i s) ! i) = numberCards (players s ! i) + 1"
    and "numberCards (players (card0Effect inp i s) ! stealFrom inp i)
           = numberCards (players s ! stealFrom inp i) - 1"
    and "j \<noteq> i \<Longrightarrow> j \<noteq> stealFrom inp i
           \<Longrightarrow> players (card0Effect inp i s) ! j = players s ! j"
    and "numberDeckRemaining (card0Effect inp i s) = numberDeckRemaining s"
    and "actionDeckRemaining (card0Effect inp i s) = actionDeckRemaining s"
    and "numberCardsTotal (card0Effect inp i s) = numberCardsTotal s"
proof -
  have len: "stealFrom inp i < length (players (addNumber i 1 s))"
    using assms(2) by (simp add: validPlayerIndex_def addNumber_def)
  show "numberCardsTotal (card0Effect inp i s) = numberCardsTotal s"
    using assms(1,3) numberCardsTotal_addNumber [OF len, of "- 1"]
    by (simp add: card0Effect_def Let_def numberCardsTotal_addNumber)
qed (use assms in \<open>simp_all add: card0Effect_def validPlayerIndex_def Let_def ledger_defs\<close>)

lemma card0Effect_empty_target:
  "numberCards (players s ! stealFrom inp i) \<le> 0 \<Longrightarrow> card0Effect inp i s = s"
  by (simp add: card0Effect_def)

text \<open>Version 2.0 has the same guard on both steals.\<close>

lemma processNumberCardEffects_v2_steal:
  "playerBCards t \<le> 0 \<Longrightarrow> processNumberCardEffects_v2 0 5 t = t"
  "0 < playerBCards t \<Longrightarrow>
     processNumberCardEffects_v2 0 5 t
       = t\<lparr>playerACards := playerACards t + 1, playerBCards := playerBCards t - 1\<rparr>"
  by (simp_all add: processNumberCardEffects_v2_def)

text \<open>C2 states that a steal from a target without number cards is a no-op. In version 1.0
  the steal has no guard. B holds no number card (B was at zero and survived the
  evaluation, or the arbiter set the count), A declares 0 and B declares 5: the steal puts
  A at 21 and B at -1, where C2 expects 20 and 0; at the end of the round B is at -2. The
  number cards in the game are still 88 after the steal: the transfer itself is balanced.\<close>

theorem C2_v1_steal_from_empty_hand:
  "(let t = SplitUnoArbiterAB\<lparr>playerBCards := 0\<rparr>;
        inp = \<lparr>numA = 0, numB = 5, choiceA = 1, choiceB = 1,
               challengeA = NoChallengeAB, challengeB = NoChallengeAB\<rparr>;
        t1 = card0Effects_v1 (numA inp) (numB inp) t;
        t2 = handleNumberRound_v1 inp t
    in (playerACards t, playerBCards t) = (20, 0)
     \<and> (playerACards t1, playerBCards t1) = (21, - 1)
     \<and> t1 \<noteq> t
     \<and> numberCardsTotalAB t1 = numberCardsTotalAB t
     \<and> (playerACards t2, playerBCards t2) = (22, - 2)
     \<and> \<not> gameOverAB t2)"
  by code_simp

subsection \<open>C1: no counter and no pool is negative\<close>

text \<open>Version 3.0 keeps the invariant: every decrement is \<open>max(0, count - 1)\<close> or is guarded,
  and every draw is clamped to the pool.\<close>

lemma nonNegative_updPlayer:
  assumes "nonNegative s"
    and "i < length (players s) \<Longrightarrow>
           0 \<le> numberCards (f (players s ! i)) \<and> 0 \<le> actionCards (f (players s ! i))"
  shows "nonNegative (updPlayer i f s)"
  using assms by (auto simp: nonNegative_def)

lemma nonNegative_ledger:
  "nonNegative s \<Longrightarrow> 0 \<le> k \<Longrightarrow> nonNegative (addNumber i k s)"
  "nonNegative s \<Longrightarrow> 0 \<le> k \<Longrightarrow> nonNegative (addAction i k s)"
  "nonNegative s \<Longrightarrow> nonNegative (shedNumber i s)"
  "nonNegative s \<Longrightarrow> nonNegative (shedAction i s)"
  "nonNegative s \<Longrightarrow> nonNegative (setWins i w s)"
  "nonNegative s \<Longrightarrow> nonNegative (setBlocked i b s)"
  by (auto simp: nonNegative_def ledger_defs)

lemma nonNegative_drawFrom:
  "nonNegative s \<Longrightarrow> nonNegative (snd (drawFromNumberDeck k s))"
  "nonNegative s \<Longrightarrow> nonNegative (snd (drawFromActionDeck k s))"
  by (auto simp: nonNegative_def drawFromNumberDeck_def drawFromActionDeck_def Let_def)

lemma nonNegative_drawTo:
  "nonNegative s \<Longrightarrow> 0 \<le> k \<Longrightarrow> nonNegative (drawNumberTo i k s)"
  "nonNegative s \<Longrightarrow> 0 \<le> k \<Longrightarrow> nonNegative (drawActionTo i k s)"
  by (simp_all add: drawNumberTo_eq drawActionTo_eq nonNegative_ledger nonNegative_drawFrom
      drawn_number_bounds drawn_action_bounds)

lemma ledger_length [simp]:
  "length (players (addNumber i k s)) = length (players s)"
  "length (players (addAction i k s)) = length (players s)"
  "length (players (shedNumber i s)) = length (players s)"
  "length (players (shedAction i s)) = length (players s)"
  "length (players (setWins i w s)) = length (players s)"
  "length (players (setBlocked i b s)) = length (players s)"
  "length (players (drawNumberTo i k s)) = length (players s)"
  "length (players (drawActionTo i k s)) = length (players s)"
  by (simp_all add: ledger_defs)

lemma collectCards_nonNegative:
  "nonNegative s \<Longrightarrow> nonNegative (fst (collectCards cf js s pc m ws))"
  by (induction js arbitrary: s pc m ws) (simp_all add: Let_def nonNegative_ledger)

lemma collectCards_length [simp]:
  "length (players (fst (collectCards cf js s pc m ws))) = length (players s)"
  by (induction js arbitrary: s pc m ws) (simp_all add: Let_def)

lemma card0Effect_nonNegative:
  "nonNegative s \<Longrightarrow> nonNegative (card0Effect inp i s)"
  by (auto simp: card0Effect_def Let_def nonNegative_def ledger_defs)

lemma card7Effect_eq:
  "card7Effect inp i s =
     addAction (penaltyTo inp i)
       (fst (drawFromActionDeck CARD_7_ACTION_DRAW (snd (drawFromNumberDeck CARD_7_NUMBER_DRAW s))))
       (addNumber (penaltyTo inp i) (fst (drawFromNumberDeck CARD_7_NUMBER_DRAW s))
          (snd (drawFromActionDeck CARD_7_ACTION_DRAW
                  (snd (drawFromNumberDeck CARD_7_NUMBER_DRAW s)))))"
  by (simp add: card7Effect_def Let_def split: prod.split)

lemma card7Effect_nonNegative:
  "nonNegative s \<Longrightarrow> nonNegative (card7Effect inp i s)"
  by (simp add: card7Effect_eq CARD_7_NUMBER_DRAW_def CARD_7_ACTION_DRAW_def
      nonNegative_ledger nonNegative_drawFrom drawn_number_bounds drawn_action_bounds)

lemma card_effects_length [simp]:
  "length (players (card0Effect inp i s)) = length (players s)"
  "length (players (card7Effect inp i s)) = length (players s)"
  by (simp_all add: card0Effect_def card7Effect_eq Let_def)

lemma specialEffects_nonNegative:
  "nonNegative s \<Longrightarrow> nonNegative (specialEffects inp pc js s)"
  by (induction js arbitrary: s)
     (simp_all add: Let_def card0Effect_nonNegative card7Effect_nonNegative)

lemma specialEffects_length [simp]:
  "length (players (specialEffects inp pc js s)) = length (players s)"
  by (induction js arbitrary: s) (simp_all add: Let_def)

lemma losersDraw_nonNegative:
  "nonNegative s \<Longrightarrow> nonNegative (losersDraw w pc js s)"
  by (induction js arbitrary: s) (simp_all add: nonNegative_ledger nonNegative_drawTo)

lemma losersDraw_length [simp]:
  "length (players (losersDraw w pc js s)) = length (players s)"
  by (induction js arbitrary: s) simp_all

lemma tiedShed_nonNegative:
  "nonNegative s \<Longrightarrow> nonNegative (tiedShed ws s)"
  by (induction ws arbitrary: s) (simp_all add: nonNegative_ledger)

lemma allDraw_nonNegative:
  "nonNegative s \<Longrightarrow> nonNegative (allDraw js s)"
  by (induction js arbitrary: s) (simp_all add: nonNegative_drawTo)

lemma nonNegative_updWins:
  "nonNegative s \<Longrightarrow> nonNegative (updPlayer i (\<lambda>p. p\<lparr>consecutiveWins := g p\<rparr>) s)"
  by (auto simp: nonNegative_def)

lemma resolveWinner_nonNegative:
  "nonNegative s \<Longrightarrow> nonNegative (resolveWinner ws pc s)"
  by (simp add: resolveWinner_def resolveSingleWinner_def resolveTie_def
      losersDraw_nonNegative tiedShed_nonNegative allDraw_nonNegative nonNegative_ledger
      nonNegative_updWins)

lemma resolveWinner_length [simp]:
  "length (players (resolveWinner ws pc s)) = length (players s)"
  by (simp add: resolveWinner_def resolveSingleWinner_def resolveTie_def)

lemma opponentsDraw_nonNegative:
  "nonNegative s \<Longrightarrow> nonNegative (opponentsDraw pn js s)"
  by (induction js arbitrary: s) (simp_all add: nonNegative_drawTo)

lemma opponentsDraw_length [simp]:
  "length (players (opponentsDraw pn js s)) = length (players s)"
  by (induction js arbitrary: s) simp_all

lemma checkConsecutiveWinsLoop_nonNegative:
  "nonNegative s \<Longrightarrow> nonNegative (checkConsecutiveWinsLoop ch js s)"
  by (induction js arbitrary: s)
     (simp_all add: Let_def nonNegative_drawTo nonNegative_ledger opponentsDraw_nonNegative)

lemma checkConsecutiveWinsLoop_length [simp]:
  "length (players (checkConsecutiveWinsLoop ch js s)) = length (players s)"
  by (induction js arbitrary: s) (simp_all add: Let_def)

lemma handleDrawChallenge_nonNegative:
  "nonNegative s \<Longrightarrow> nonNegative (handleDrawChallenge w a s)"
  by (cases a; cases "case a of ChallengeBy c d \<Rightarrow> d | _ \<Rightarrow> PlusTwo")
     (simp_all add: nonNegative_ledger nonNegative_drawTo, simp_all add: nonNegative_def)

lemma handleDrawChallenge_length [simp]:
  "length (players (handleDrawChallenge w a s)) = length (players s)"
  by (cases a) simp_all

lemma checkWinConditionLoop_nonNegative:
  "nonNegative s \<Longrightarrow> nonNegative (checkWinConditionLoop ans js s)"
  by (induction js arbitrary: s) (simp_all add: Let_def handleDrawChallenge_nonNegative)

lemma checkWinConditionLoop_length [simp]:
  "length (players (checkWinConditionLoop ans js s)) = length (players s)"
  by (induction js arbitrary: s) (simp_all add: Let_def)

lemma handleNumberRound_nonNegative:
  "nonNegative s \<Longrightarrow> nonNegative (handleNumberRound inp s)"
proof -
  assume inv: "nonNegative s"
  obtain s1 pc m ws where c: "collectCards (cardOf inp) [0..<length (players s)] s
      (replicate (length (players s)) 0) (- 1) [] = (s1, pc, m, ws)"
    by (metis prod_cases4)
  have "nonNegative s1"
    using collectCards_nonNegative [OF inv, of "cardOf inp" "[0..<length (players s)]"
        "replicate (length (players s)) 0" "- 1" "[]"] c by simp
  then show ?thesis
    using c
    by (simp add: handleNumberRound_def Let_def checkWinCondition_def checkConsecutiveWins_def
        specialEffects_nonNegative resolveWinner_nonNegative
        checkConsecutiveWinsLoop_nonNegative checkWinConditionLoop_nonNegative)
qed

lemma nonNegative_game_flags [simp]:
  "nonNegative (s\<lparr>gameOver := b\<rparr>) = nonNegative s"
  "nonNegative (s\<lparr>winner := w\<rparr>) = nonNegative s"
  by (simp_all add: nonNegative_def)

lemma allShed_nonNegative:
  "nonNegative s \<Longrightarrow> nonNegative (allShed js s)"
  by (induction js arbitrary: s) (simp_all add: nonNegative_ledger)

lemma allShed_length [simp]: "length (players (allShed js s)) = length (players s)"
  by (induction js arbitrary: s) simp_all

lemma handleDrawCard_nonNegative:
  "nonNegative s \<Longrightarrow> 0 \<le> amount \<Longrightarrow> nonNegative (handleDrawCard p amount t counter s)"
  by (cases counter)
     (simp_all add: handleDrawCard_def Let_def nonNegative_ledger nonNegative_drawTo)

lemma handleActionCard_nonNegative:
  assumes "nonNegative s" and "validActionInput (length (players s)) playerIdx inp"
  shows "nonNegative (handleActionCard playerIdx actionType inp s)"
proof -
  have rev: "nonNegative (handleReverseCard playerIdx (target inp) s)"
    using assms
    by (simp add: validActionInput_def validPlayerIndex_def handleReverseCard_net_effect
        nonNegative_ledger)
  show ?thesis
    using assms(1) rev
    by (cases actionType)
       (simp_all add: handleBlockCard_def handleColorChangeCard_def handleTruthCard_def
          handleDareCard_def Let_def nonNegative_ledger nonNegative_drawTo
          allShed_nonNegative handleDrawCard_nonNegative)
qed

lemma manualAdjustment_nonNegative:
  assumes "nonNegative s" and "validAdjustment (length (players s)) pIdx choice newCount"
  shows "nonNegative (manualAdjustment pIdx choice newCount s)"
  using assms
  by (auto simp: manualAdjustment_def validAdjustment_def validInt_def nonNegative_def
      ledger_defs)

lemma step_nonNegative: "step s s' \<Longrightarrow> nonNegative s \<Longrightarrow> nonNegative s'"
  by (induction rule: step.induct)
     (simp_all add: handleNumberRound_nonNegative handleActionCard_nonNegative
        manualAdjustment_nonNegative)

lemma reachable_nonNegative: "reachable s \<Longrightarrow> nonNegative s"
proof (induction rule: reachable.induct)
  case (afterSetup name1 name2)
  show ?case
    by (simp add: setupGame_state nonNegative_def nth_Cons split: nat.split)
next
  case (afterStep s s')
  then show ?case by (simp add: step_nonNegative)
qed

text \<open>Version 2.0 keeps it as well.\<close>

lemma nonNegativeAB_other_fields [simp]:
  "nonNegativeAB (t\<lparr>consecutiveWinsA := w\<rparr>) = nonNegativeAB t"
  "nonNegativeAB (t\<lparr>consecutiveWinsB := w\<rparr>) = nonNegativeAB t"
  "nonNegativeAB (t\<lparr>lastWinner := l\<rparr>) = nonNegativeAB t"
  "nonNegativeAB (t\<lparr>playerABlocked := b\<rparr>) = nonNegativeAB t"
  "nonNegativeAB (t\<lparr>playerBBlocked := b\<rparr>) = nonNegativeAB t"
  "nonNegativeAB (t\<lparr>gameOverAB := b\<rparr>) = nonNegativeAB t"
  "nonNegativeAB (t\<lparr>winnerAB := l\<rparr>) = nonNegativeAB t"
  by (simp_all add: nonNegativeAB_def)

lemmas v2_unfold =
  drawFromNumberDeck_v2_def drawFromActionDeck_v2_def ab_defs Let_def nonNegativeAB_def

lemma processNumberCardEffects_v2_nonNegative:
  "nonNegativeAB t \<Longrightarrow> nonNegativeAB (processNumberCardEffects_v2 a b t)"
  by (auto simp: processNumberCardEffects_v2_def v2_unfold)

lemma roundWon_v2_nonNegative:
  "nonNegativeAB t \<Longrightarrow> nonNegativeAB (roundWon_v2 a t)"
  by (auto simp: roundWon_v2_def v2_unfold)

lemma resolveNumberBid_v2_nonNegative:
  "nonNegativeAB t \<Longrightarrow> nonNegativeAB (resolveNumberBid_v2 a b t)"
  by (auto simp: resolveNumberBid_v2_def roundWon_v2_def v2_unfold)

lemma checkConsecutiveWins_v2_nonNegative:
  "nonNegativeAB t \<Longrightarrow> nonNegativeAB (checkConsecutiveWins_v2 inp t)"
  by (auto simp: checkConsecutiveWins_v2_def v2_unfold)

lemma handleDrawChallenge_v2_nonNegative:
  "nonNegativeAB t \<Longrightarrow> nonNegativeAB (handleDrawChallenge_v2 a ans t)"
  by (cases ans; cases "case ans of PlayedAB c \<Rightarrow> c | _ \<Rightarrow> PlusTwo")
     (auto simp: handleDrawChallenge_v2_def v2_unfold)

lemma checkWinCondition_v2_nonNegative:
  "nonNegativeAB t \<Longrightarrow> nonNegativeAB (checkWinCondition_v2 inp t)"
  by (simp add: checkWinCondition_v2_def Let_def handleDrawChallenge_v2_nonNegative)

lemma handleNumberRound_v2_nonNegative:
  "nonNegativeAB t \<Longrightarrow> nonNegativeAB (handleNumberRound_v2 inp t)"
  by (simp add: handleNumberRound_v2_def handleBlockedRound_v2_def
      checkWinCondition_v2_nonNegative checkConsecutiveWins_v2_nonNegative
      resolveNumberBid_v2_nonNegative processNumberCardEffects_v2_nonNegative
      roundWon_v2_nonNegative)

lemma handleDrawCard_v2_nonNegative:
  "nonNegativeAB t \<Longrightarrow> 0 \<le> k \<Longrightarrow> nonNegativeAB (handleDrawCard_v2 p k counter t)"
  by (cases counter; cases "case counter of Some c \<Rightarrow> c | _ \<Rightarrow> PlusTwo")
     (auto simp: handleDrawCard_v2_def v2_unfold)

lemma handleActionCard_v2_nonNegative:
  assumes "nonNegativeAB t"
  shows "nonNegativeAB (handleActionCard_v2 p actionType ainp t)"
proof (cases actionType)
  case DRAW_TWO
  with assms show ?thesis by (simp add: handleDrawCard_v2_nonNegative)
next
  case DRAW_FOUR
  with assms show ?thesis by (simp add: handleDrawCard_v2_nonNegative)
next
  case TRUTH
  with assms show ?thesis by (auto simp: handleTruthCard_v2_def v2_unfold)
qed (use assms in \<open>auto simp: handleBlockCard_v2_def handleReverseCard_v2_def
       handleColorChangeCard_v2_def handleDareCard_v2_def v2_unfold\<close>)

lemma step_v2_nonNegative: "step_v2 t t' \<Longrightarrow> nonNegativeAB t \<Longrightarrow> nonNegativeAB t'"
proof (induction rule: step_v2.induct)
  case (adjust_v2 s choice newValue)
  then show ?case
    by (auto simp: manualAdjustment_v2_def validAdjustment_v2_def validInt_def nonNegativeAB_def)
qed (simp_all add: handleNumberRound_v2_nonNegative handleActionCard_v2_nonNegative)

lemma reachable_v2_nonNegative: "reachable_v2 t \<Longrightarrow> nonNegativeAB t"
  by (induction rule: reachable_v2.induct)
     (simp_all add: step_v2_nonNegative, simp add: SplitUnoArbiterAB_def nonNegativeAB_def)


text \<open>Version 1.0: the round in which both players declare 7, and its iteration from the
  initial state.\<close>

lemma sevens_round_v1:
  assumes "0 \<le> a" and "0 \<le> b"
  shows "handleNumberRound_v1
      \<lparr>numA = 7, numB = 7, choiceA = cA, choiceB = cB, challengeA = xA, challengeB = xB\<rparr>
      (SplitUnoArbiterAB
         \<lparr>playerACards := a, playerBCards := b,
          playerAActionCards := c, playerBActionCards := d,
          numberDeckRemainingAB := n, actionDeckRemainingAB := m\<rparr>)
   = SplitUnoArbiterAB
       \<lparr>playerACards := a + 2, playerBCards := b + 2,
        playerAActionCards := c + 1, playerBActionCards := d + 1,
        numberDeckRemainingAB := n - 4, actionDeckRemainingAB := m - 2\<rparr>"
  using assms
  by (simp add: SplitUnoArbiterAB_def handleNumberRound_v1_def card0Effects_v1_def
      card7Effects_v1_def resolveBid_v1_def checkConsecutiveWins_v1_def
      checkWinCondition_v1_def Let_def)

lemma sevens_v1:
  "(handleNumberRound_v1
      \<lparr>numA = 7, numB = 7, choiceA = cA, choiceB = cB, challengeA = xA, challengeB = xB\<rparr> ^^ k)
     SplitUnoArbiterAB
   = SplitUnoArbiterAB
       \<lparr>playerACards := 20 + 2 * int k, playerBCards := 20 + 2 * int k,
        playerAActionCards := int k, playerBActionCards := int k,
        numberDeckRemainingAB := 68 - 4 * int k,
        actionDeckRemainingAB := 32 - 2 * int k\<rparr>"
proof (induction k)
  case 0
  show ?case by (simp add: SplitUnoArbiterAB_def)
next
  case (Suc k)
  show ?case
    by (simp add: Suc sevens_round_v1)
qed

text \<open>C1 states the invariant for every state a game can reach. In version 1.0 it fails:
  that version has no clamp and no guard, every shed is
  \<open>count--\<close> and every draw subtracts from the pool whatever the pool holds. From the
  initial state (20 number cards each, no action cards, pools 68 and 32): when A plays
  BLOCK and B does not counter, A's action count is -1; and when both players declare 7
  in every round, the action pool is -2 after 17 rounds and the number pool is -4 after
  18 rounds, each round ending in a tie with no bonus and no player at zero. Versions 2.0
  and 3.0 keep the invariant (\<open>reachable_v2_nonNegative\<close>, \<open>reachable_nonNegative\<close>).\<close>

theorem C1_v1_counters_go_negative:
  "(let inp = \<lparr>numA = 7, numB = 7, choiceA = 1, choiceB = 1,
               challengeA = NoChallengeAB, challengeB = NoChallengeAB\<rparr>;
        t17 = (handleNumberRound_v1 inp ^^ 17) SplitUnoArbiterAB;
        t18 = (handleNumberRound_v1 inp ^^ 18) SplitUnoArbiterAB
    in nonNegativeAB SplitUnoArbiterAB
     \<and> playerAActionCards (handleBlockCard_v1 ''A'' False SplitUnoArbiterAB) = - 1
     \<and> \<not> nonNegativeAB (handleBlockCard_v1 ''A'' False SplitUnoArbiterAB)
     \<and> actionDeckRemainingAB t17 = - 2 \<and> numberDeckRemainingAB t17 = 0
     \<and> \<not> gameOverAB t17
     \<and> numberDeckRemainingAB t18 = - 4 \<and> actionDeckRemainingAB t18 = - 4
     \<and> \<not> nonNegativeAB t17 \<and> \<not> nonNegativeAB t18)"
  by (simp add: Let_def sevens_v1 nonNegativeAB_def)
     (simp add: SplitUnoArbiterAB_def handleBlockCard_v1_def)

subsection \<open>C10: the pools never grow\<close>

lemma decksNotLarger_refl [simp]: "decksNotLarger s s"
  by (simp add: decksNotLarger_def)

lemma decksNotLarger_trans:
  "decksNotLarger s s' \<Longrightarrow> decksNotLarger s' s'' \<Longrightarrow> decksNotLarger s s''"
  by (auto simp: decksNotLarger_def)

text \<open>The ledger updates leave the pools alone; a draw of a non-negative amount can only
  lower its pool.\<close>

lemma decksNotLarger_ledger [simp]:
  "decksNotLarger s (updPlayer i f s') = decksNotLarger s s'"
  "decksNotLarger s (addNumber i k s') = decksNotLarger s s'"
  "decksNotLarger s (addAction i k s') = decksNotLarger s s'"
  "decksNotLarger s (shedNumber i s') = decksNotLarger s s'"
  "decksNotLarger s (shedAction i s') = decksNotLarger s s'"
  "decksNotLarger s (setWins i w s') = decksNotLarger s s'"
  "decksNotLarger s (setBlocked i b s') = decksNotLarger s s'"
  "decksNotLarger s (s'\<lparr>gameOver := g\<rparr>) = decksNotLarger s s'"
  "decksNotLarger s (s'\<lparr>winner := n\<rparr>) = decksNotLarger s s'"
  by (simp_all add: decksNotLarger_def ledger_defs)

lemma decksNotLarger_draw:
  "decksNotLarger s s' \<Longrightarrow> 0 \<le> k \<Longrightarrow> decksNotLarger s (snd (drawFromNumberDeck k s'))"
  "decksNotLarger s s' \<Longrightarrow> 0 \<le> k \<Longrightarrow> decksNotLarger s (snd (drawFromActionDeck k s'))"
  "decksNotLarger s s' \<Longrightarrow> 0 \<le> k \<Longrightarrow> decksNotLarger s (drawNumberTo i k s')"
  "decksNotLarger s s' \<Longrightarrow> 0 \<le> k \<Longrightarrow> decksNotLarger s (drawActionTo i k s')"
  by (auto simp: decksNotLarger_def ledger_defs drawFromNumberDeck_def drawFromActionDeck_def
      Let_def)

lemma collectCards_decks:
  "decksNotLarger s s' \<Longrightarrow> decksNotLarger s (fst (collectCards cf js s' pc m ws))"
  by (induction js arbitrary: s' pc m ws) (simp_all add: Let_def)

lemma card_effects_decks:
  "decksNotLarger s s' \<Longrightarrow> decksNotLarger s (card0Effect inp i s')"
  "decksNotLarger s s' \<Longrightarrow> decksNotLarger s (card7Effect inp i s')"
  by (simp_all add: card0Effect_def card7Effect_eq Let_def decksNotLarger_draw
      CARD_7_NUMBER_DRAW_def CARD_7_ACTION_DRAW_def)

lemma specialEffects_decks:
  "decksNotLarger s s' \<Longrightarrow> decksNotLarger s (specialEffects inp pc js s')"
  by (induction js arbitrary: s') (simp_all add: Let_def card_effects_decks)

lemma losersDraw_decks:
  "decksNotLarger s s' \<Longrightarrow> decksNotLarger s (losersDraw w pc js s')"
  by (induction js arbitrary: s') (simp_all add: decksNotLarger_draw)

lemma tiedShed_decks:
  "decksNotLarger s s' \<Longrightarrow> decksNotLarger s (tiedShed ws s')"
  by (induction ws arbitrary: s') simp_all

lemma allDraw_decks:
  "decksNotLarger s s' \<Longrightarrow> decksNotLarger s (allDraw js s')"
  by (induction js arbitrary: s') (simp_all add: decksNotLarger_draw)

lemma allShed_decks:
  "decksNotLarger s s' \<Longrightarrow> decksNotLarger s (allShed js s')"
  by (induction js arbitrary: s') simp_all

lemma resolveWinner_decks:
  "decksNotLarger s s' \<Longrightarrow> decksNotLarger s (resolveWinner ws pc s')"
  by (simp add: resolveWinner_def resolveSingleWinner_def resolveTie_def losersDraw_decks
      tiedShed_decks allDraw_decks)

lemma opponentsDraw_decks:
  "decksNotLarger s s' \<Longrightarrow> decksNotLarger s (opponentsDraw pn js s')"
  by (induction js arbitrary: s') (simp_all add: decksNotLarger_draw)

lemma checkConsecutiveWinsLoop_decks:
  "decksNotLarger s s' \<Longrightarrow> decksNotLarger s (checkConsecutiveWinsLoop ch js s')"
  by (induction js arbitrary: s')
     (simp_all add: Let_def decksNotLarger_draw opponentsDraw_decks)

lemma handleDrawChallenge_decks:
  "decksNotLarger s s' \<Longrightarrow> decksNotLarger s (handleDrawChallenge w a s')"
  by (cases a; cases "case a of ChallengeBy c d \<Rightarrow> d | _ \<Rightarrow> PlusTwo")
     (simp_all add: decksNotLarger_draw)

lemma checkWinConditionLoop_decks:
  "decksNotLarger s s' \<Longrightarrow> decksNotLarger s (checkWinConditionLoop ans js s')"
  by (induction js arbitrary: s') (simp_all add: Let_def handleDrawChallenge_decks)

lemma handleNumberRound_decks: "decksNotLarger s (handleNumberRound inp s)"
proof -
  obtain s1 pc m ws where c: "collectCards (cardOf inp) [0..<length (players s)] s
      (replicate (length (players s)) 0) (- 1) [] = (s1, pc, m, ws)"
    by (metis prod_cases4)
  have "decksNotLarger s s1"
    using collectCards_decks [OF decksNotLarger_refl, of s "cardOf inp"
        "[0..<length (players s)]" "replicate (length (players s)) 0" "- 1" "[]"] c
    by simp
  then show ?thesis
    using c
    by (simp add: handleNumberRound_def Let_def checkWinCondition_def checkConsecutiveWins_def
        specialEffects_decks resolveWinner_decks checkConsecutiveWinsLoop_decks
        checkWinConditionLoop_decks)
qed

lemma swap_decks [simp]:
  "decksNotLarger s (swapNumberCards i j s') = decksNotLarger s s'"
  "decksNotLarger s (swapActionCards i j s') = decksNotLarger s s'"
  by (simp_all add: swapNumberCards_def swapActionCards_def Let_def)

lemma handleDrawCard_decks:
  "0 \<le> amount \<Longrightarrow> decksNotLarger s (handleDrawCard p amount t counter s)"
  by (cases counter) (simp_all add: handleDrawCard_def Let_def decksNotLarger_draw)

lemma handleActionCard_decks: "decksNotLarger s (handleActionCard p actionType inp s)"
  by (cases actionType)
     (simp_all add: handleBlockCard_def handleReverseCard_def handleColorChangeCard_def
        handleTruthCard_def handleDareCard_def Let_def handleDrawCard_decks
        decksNotLarger_draw allShed_decks)

lemma manualAdjustment_decks: "decksNotLarger s (manualAdjustment pIdx choice newCount s)"
  by (simp add: manualAdjustment_def)

lemma step_decks: "step s s' \<Longrightarrow> decksNotLarger s s'"
  by (induction rule: step.induct)
     (simp_all add: handleNumberRound_decks handleActionCard_decks manualAdjustment_decks)

text \<open>The web application: \<open>Deck.draw\<close> pops a card, and \<open>drawCards\<close> only draws.\<close>

lemma Deck_draw_count: "Deck_count (snd (Deck_draw d)) \<le> Deck_count d"
  by (simp add: Deck_draw_def Deck_count_def)

lemma drawCards_count: "Deck_count (fst (drawCards k d)) \<le> Deck_count d"
proof (induction k arbitrary: d)
  case 0
  show ?case by simp
next
  case (Suc k)
  show ?case
  proof (cases "cards d = []")
    case True
    then show ?thesis by (simp add: Deck_count_def)
  next
    case False
    have "Deck_count (fst (drawCards k (d\<lparr>cards := butlast (cards d)\<rparr>)))
            \<le> Deck_count (d\<lparr>cards := butlast (cards d)\<rparr>)"
      by (rule Suc.IH)
    with False show ?thesis
      by (auto simp: Deck_count_def Deck_draw_def split: prod.split)
  qed
qed

text \<open>C10. Over any sequence of iterations of the main loop of version 3.0 (number rounds
  with their bonus and win evaluation, the action handlers, manual adjustments, the end
  of the game) neither \<open>numberDeckRemaining\<close> nor \<open>actionDeckRemaining\<close> increases; and in
  the web application \<open>Deck.draw\<close> and \<open>Game.drawCards\<close> never make a deck larger.\<close>

theorem C10_pools_never_increase:
  assumes "step\<^sup>*\<^sup>* s s'"
  shows "numberDeckRemaining s' \<le> numberDeckRemaining s
       \<and> actionDeckRemaining s' \<le> actionDeckRemaining s
       \<and> Deck_count (snd (Deck_draw d)) \<le> Deck_count d
       \<and> Deck_count (fst (drawCards k d)) \<le> Deck_count d"
proof -
  have "decksNotLarger s s'"
    using assms
    by (induction rule: rtranclp_induct) (auto intro: decksNotLarger_trans step_decks)
  then show ?thesis
    by (simp add: decksNotLarger_def Deck_draw_count drawCards_count)
qed


text \<open>A game of two steps: Ann declares 7 against Bob's 3 (Bob draws 2 number cards and 1
  action card for the 7 and 1 number card for the loss), then Ann plays +2 on Bob, who
  takes the hit. The pools go from 68 and 32 to 63 and 31.\<close>

theorem C10_pools_never_increase_witness:
  "step\<^sup>*\<^sup>* (setupGame ''Ann'' ''Bob'' SplitUnoArbiter)
     (handleActionCard 0 DRAW_TWO
        \<lparr>target = 1, answer = False, counterCard = PlusTwo, penaltyChoice = 1\<rparr>
        (handleNumberRound
           \<lparr>cardOf = (\<lambda>i. if i = 0 then 7 else 3), stealFrom = (\<lambda>i. 1 - i),
            penaltyTo = (\<lambda>i. 1 - i), bonusChoice = (\<lambda>i. 1),
            challengeOf = (\<lambda>i. NoChallenge)\<rparr>
           (setupGame ''Ann'' ''Bob'' SplitUnoArbiter)))
   \<and> numberDeckRemaining (handleActionCard 0 DRAW_TWO
        \<lparr>target = 1, answer = False, counterCard = PlusTwo, penaltyChoice = 1\<rparr>
        (handleNumberRound
           \<lparr>cardOf = (\<lambda>i. if i = 0 then 7 else 3), stealFrom = (\<lambda>i. 1 - i),
            penaltyTo = (\<lambda>i. 1 - i), bonusChoice = (\<lambda>i. 1),
            challengeOf = (\<lambda>i. NoChallenge)\<rparr>
           (setupGame ''Ann'' ''Bob'' SplitUnoArbiter))) \<le> 68
   \<and> actionDeckRemaining (handleActionCard 0 DRAW_TWO
        \<lparr>target = 1, answer = False, counterCard = PlusTwo, penaltyChoice = 1\<rparr>
        (handleNumberRound
           \<lparr>cardOf = (\<lambda>i. if i = 0 then 7 else 3), stealFrom = (\<lambda>i. 1 - i),
            penaltyTo = (\<lambda>i. 1 - i), bonusChoice = (\<lambda>i. 1),
            challengeOf = (\<lambda>i. NoChallenge)\<rparr>
           (setupGame ''Ann'' ''Bob'' SplitUnoArbiter))) \<le> 32"
proof -
  let ?s0 = "setupGame ''Ann'' ''Bob'' SplitUnoArbiter"
  let ?r = "\<lparr>cardOf = (\<lambda>i. if i = 0 then 7 else 3), stealFrom = (\<lambda>i. 1 - i),
            penaltyTo = (\<lambda>i. 1 - i), bonusChoice = (\<lambda>i. 1),
            challengeOf = (\<lambda>i::nat. NoChallenge)\<rparr>"
  let ?a = "\<lparr>target = 1, answer = False, counterCard = PlusTwo, penaltyChoice = 1\<rparr>"
  let ?s1 = "handleNumberRound ?r ?s0"
  let ?s2 = "handleActionCard 0 DRAW_TWO ?a ?s1"
  have len0: "length (players ?s0) = 2" and go0: "\<not> gameOver ?s0"
    by (simp_all add: setupGame_state)
  have valid_r: "validRoundInput (length (players ?s0)) ?r"
    unfolding len0
    by (auto simp: validRoundInput_def validInt_def validPlayerIndex_def
        MIN_CARD_NUMBER_def MAX_CARD_NUMBER_def)
  have step1: "step ?s0 ?s1"
    using go0 valid_r by (rule step.numberRound)
  have go1: "\<not> gameOver ?s1" and len1: "length (players ?s1) = 2"
    by code_simp+
  have valid_a: "validActionInput (length (players ?s1)) 0 ?a"
    unfolding len1 by (simp add: validActionInput_def validPlayerIndex_def validInt_def)
  have step2: "step ?s1 ?s2"
    using go1 valid_a by (rule step.actionCard)
  have steps: "step\<^sup>*\<^sup>* ?s0 ?s2"
    using step1 step2 by (meson rtranclp.rtrancl_into_rtrancl rtranclp.rtrancl_refl)
  show ?thesis
    using steps C10_pools_never_increase [OF steps] by (simp add: setupGame_state)
qed

subsection \<open>C8: a block lasts for one number round\<close>

text \<open>Version 3.0. Apart from \<open>setBlocked\<close>, no ledger update touches a blocked flag.\<close>

lemma flags_updPlayer:
  assumes "\<And>p. isBlocked (f p) = isBlocked p"
  shows "map isBlocked (players (updPlayer i f s)) = map isBlocked (players s)"
proof (rule nth_equalityI)
  show "length (map isBlocked (players (updPlayer i f s))) = length (map isBlocked (players s))"
    by simp
next
  fix j
  assume "j < length (map isBlocked (players (updPlayer i f s)))"
  then show "map isBlocked (players (updPlayer i f s)) ! j = map isBlocked (players s) ! j"
    by (simp add: assms)
qed

lemma flags_ledger [simp]:
  "map isBlocked (players (addNumber i k s)) = map isBlocked (players s)"
  "map isBlocked (players (addAction i k s)) = map isBlocked (players s)"
  "map isBlocked (players (shedNumber i s)) = map isBlocked (players s)"
  "map isBlocked (players (shedAction i s)) = map isBlocked (players s)"
  "map isBlocked (players (setWins i w s)) = map isBlocked (players s)"
  "map isBlocked (players (drawNumberTo i k s)) = map isBlocked (players s)"
  "map isBlocked (players (drawActionTo i k s)) = map isBlocked (players s)"
  by (simp_all add: ledger_defs flags_updPlayer)

lemma flags_swap [simp]:
  "map isBlocked (players (swapNumberCards i j s)) = map isBlocked (players s)"
  "map isBlocked (players (swapActionCards i j s)) = map isBlocked (players s)"
  by (simp_all add: swapNumberCards_def swapActionCards_def Let_def flags_updPlayer)

lemma flags_loops [simp]:
  "map isBlocked (players (specialEffects inp pc js s)) = map isBlocked (players s)"
  "map isBlocked (players (losersDraw w pc js s)) = map isBlocked (players s)"
  "map isBlocked (players (tiedShed ws s)) = map isBlocked (players s)"
  "map isBlocked (players (allDraw js s)) = map isBlocked (players s)"
  "map isBlocked (players (allShed js s)) = map isBlocked (players s)"
  "map isBlocked (players (opponentsDraw pn js s)) = map isBlocked (players s)"
proof -
  show "map isBlocked (players (specialEffects inp pc js s)) = map isBlocked (players s)"
    by (induction js arbitrary: s) (simp_all add: Let_def card0Effect_def card7Effect_eq)
  show "map isBlocked (players (losersDraw w pc js s)) = map isBlocked (players s)"
    by (induction js arbitrary: s) simp_all
  show "map isBlocked (players (tiedShed ws s)) = map isBlocked (players s)"
    by (induction ws arbitrary: s) simp_all
  show "map isBlocked (players (allDraw js s)) = map isBlocked (players s)"
    by (induction js arbitrary: s) simp_all
  show "map isBlocked (players (allShed js s)) = map isBlocked (players s)"
    by (induction js arbitrary: s) simp_all
  show "map isBlocked (players (opponentsDraw pn js s)) = map isBlocked (players s)"
    by (induction js arbitrary: s) simp_all
qed

lemma flags_evaluators [simp]:
  "map isBlocked (players (resolveWinner ws pc s)) = map isBlocked (players s)"
  "map isBlocked (players (checkConsecutiveWinsLoop ch js s)) = map isBlocked (players s)"
  "map isBlocked (players (handleDrawChallenge w a s)) = map isBlocked (players s)"
  "map isBlocked (players (checkWinConditionLoop ans js s)) = map isBlocked (players s)"
proof -
  show "map isBlocked (players (resolveWinner ws pc s)) = map isBlocked (players s)"
    by (simp add: resolveWinner_def resolveSingleWinner_def resolveTie_def flags_updPlayer)
  show "map isBlocked (players (checkConsecutiveWinsLoop ch js s)) = map isBlocked (players s)"
    by (induction js arbitrary: s) (simp_all add: Let_def)
  show h: "map isBlocked (players (handleDrawChallenge w a s)) = map isBlocked (players s)"
    for w a s by (cases a) simp_all
  show "map isBlocked (players (checkWinConditionLoop ans js s)) = map isBlocked (players s)"
    by (induction js arbitrary: s) (simp_all add: Let_def h)
qed

text \<open>The collecting loop: a player it visits is unblocked, and a blocked player it visits
  is marked \<open>-1\<close> and does not enter \<open>winners\<close>.\<close>

lemma collectCards_flags:
  "i < length (players s) \<Longrightarrow>
     isBlocked (players (fst (collectCards cf js s pc m ws)) ! i)
       = (isBlocked (players s ! i) \<and> i \<notin> set js)"
  by (induction js arbitrary: s pc m ws) (auto simp: Let_def setBlocked_def)

lemma collectCards_blocked_no_play:
  assumes "isBlocked (players s ! i)" and "i < length (players s)" and "i < length pc"
    and "i \<in> set js" and "distinct js" and "i \<notin> set ws"
  shows "fst (snd (collectCards cf js s pc m ws)) ! i = - 1
       \<and> i \<notin> set (snd (snd (snd (collectCards cf js s pc m ws))))"
proof -
  have skip: "fst (snd (collectCards cf js s pc m ws)) ! i = pc ! i
            \<and> (i \<notin> set ws \<longrightarrow> i \<notin> set (snd (snd (snd (collectCards cf js s pc m ws)))))"
    if "i \<notin> set js" for js s pc m ws
    using that by (induction js arbitrary: s pc m ws) (auto simp: Let_def)
  show ?thesis
    using assms
  proof (induction js arbitrary: s pc m ws)
    case Nil
    then show ?case by simp
  next
    case (Cons j js)
    show ?case
    proof (cases "j = i")
      case True
      then have "i \<notin> set js" using Cons.prems(5) by simp
      from skip [OF this]
      show ?thesis
        using True Cons.prems by simp
    next
      case False
      then have mem: "i \<in> set js" using Cons.prems(4) by simp
      have dist: "distinct js" using Cons.prems(5) by simp
      have IH: "fst (snd (collectCards cf js s' pc' m' ws')) ! i = - 1
              \<and> i \<notin> set (snd (snd (snd (collectCards cf js s' pc' m' ws'))))"
        if "isBlocked (players s' ! i)" and "i < length (players s')" and "i < length pc'"
          and "i \<notin> set ws'" for s' pc' m' ws'
        using that mem dist by (intro Cons.IH)
      show ?thesis
        using False Cons.prems(1,2,3,6)
        by (simp add: Let_def setBlocked_def IH)
    qed
  qed
qed

text \<open>After \<open>handleNumberRound\<close> no player is blocked, whatever the outcome of the round,
  and a player who was blocked when the round began declared no card.\<close>

lemma handleNumberRound_unblocks:
  assumes "i < length (players s)"
  shows "\<not> isBlocked (players (handleNumberRound inp s) ! i)"
proof -
  obtain s1 pc m ws where c: "collectCards (cardOf inp) [0..<length (players s)] s
      (replicate (length (players s)) 0) (- 1) [] = (s1, pc, m, ws)"
    by (metis prod_cases4)
  have len: "length (players s1) = length (players s)"
    using collectCards_length [of "cardOf inp" "[0..<length (players s)]" s
        "replicate (length (players s)) 0" "- 1" "[]"] c by simp
  have "\<not> isBlocked (players s1 ! i)"
    using collectCards_flags [OF assms, of "cardOf inp" "[0..<length (players s)]"
        "replicate (length (players s)) 0" "- 1" "[]"] c assms by simp
  then have "\<not> map isBlocked (players s1) ! i"
    using assms len by simp
  moreover have "map isBlocked (players (handleNumberRound inp s)) = map isBlocked (players s1)"
    using c by (simp add: handleNumberRound_def Let_def checkWinCondition_def
        checkConsecutiveWins_def)
  moreover have "length (players (handleNumberRound inp s)) = length (players s)"
    using c len by (simp add: handleNumberRound_def Let_def checkWinCondition_def
        checkConsecutiveWins_def)
  ultimately show ?thesis
    using assms by (metis nth_map)
qed

text \<open>No action card and no manual adjustment clears a block: of the iterations of the
  main loop, only a number round does.\<close>

lemma handleActionCard_length [simp]:
  "length (players (handleActionCard p actionType inp s)) = length (players s)"
  by (cases actionType)
     (simp_all add: handleBlockCard_def handleReverseCard_def handleColorChangeCard_def
        handleDrawCard_def handleTruthCard_def handleDareCard_def Let_def
        swapNumberCards_def swapActionCards_def split: option.split)

lemma handleBlockCard_keeps_block:
  assumes "i < length (players s)" and "isBlocked (players s ! i)"
  shows "isBlocked (players (handleBlockCard p t c s) ! i)"
  using assms by (auto simp: handleBlockCard_def ledger_defs)

lemma flags_other_handlers:
  "map isBlocked (players (handleReverseCard p t s)) = map isBlocked (players s)"
  "map isBlocked (players (handleColorChangeCard p s)) = map isBlocked (players s)"
  "map isBlocked (players (handleDrawCard p amount t counter s)) = map isBlocked (players s)"
  "map isBlocked (players (handleTruthCard p t answered choice s)) = map isBlocked (players s)"
  "map isBlocked (players (handleDareCard p t completed s)) = map isBlocked (players s)"
  by (simp_all add: handleReverseCard_def handleColorChangeCard_def handleDrawCard_def
      handleTruthCard_def handleDareCard_def Let_def split: option.split)

lemma handleActionCard_keeps_block:
  assumes "i < length (players s)" and "isBlocked (players s ! i)"
  shows "isBlocked (players (handleActionCard p actionType inp s) ! i)"
proof -
  have same: "isBlocked (players s' ! i)"
    if "map isBlocked (players s') = map isBlocked (players s)" for s'
  proof -
    have "length (players s') = length (players s)"
      using that by (metis length_map)
    then show ?thesis
      using that assms by (metis nth_map)
  qed
  show ?thesis
    using assms
    by (cases actionType) (simp_all add: handleBlockCard_keeps_block same flags_other_handlers)
qed

lemma manualAdjustment_keeps_block:
  assumes "i < length (players s)" and "isBlocked (players s ! i)"
  shows "isBlocked (players (manualAdjustment pIdx choice newCount s) ! i)"
  using assms by (auto simp: manualAdjustment_def ledger_defs)

lemma block_cleared_only_by_number_round:
  assumes "step s s'" and "i < length (players s)" and "isBlocked (players s ! i)"
    and "\<not> isBlocked (players s' ! i)"
  shows "\<exists>inp. s' = handleNumberRound inp s"
  using assms
  by (induction rule: step.induct)
     (auto simp: handleActionCard_keeps_block manualAdjustment_keeps_block)


lemma blocked_player_declares_nothing:
  assumes "i < length (players s)" and "isBlocked (players s ! i)"
  shows "fst (snd (collectCards (cardOf inp) [0..<length (players s)] s
                     (replicate (length (players s)) 0) (- 1) [])) ! i = - 1
       \<and> i \<notin> set (snd (snd (snd (collectCards (cardOf inp) [0..<length (players s)] s
                     (replicate (length (players s)) 0) (- 1) []))))"
  using assms by (intro collectCards_blocked_no_play) simp_all

text \<open>The web application. \<open>endRound\<close> clears both flags before it starts the next round, so
  \<open>startRound\<close> called from it never finds a blocked player; and since every action ends
  with \<open>endRound\<close>, a block set by an action card is gone when the next round begins.\<close>

lemma startRound_after_endRound_clears:
  "startRound (g\<lparr>playerIsBlocked := False, aiIsBlocked := False\<rparr>)
     = startRoundOpen (g\<lparr>playerIsBlocked := False, aiIsBlocked := False\<rparr>)"
  by (simp add: startRound_def)

lemma endRound_leaves_nobody_blocked:
  "\<not> playerIsBlocked (endRound g) \<and> \<not> aiIsBlocked (endRound g)
   \<and> aiAsked (endRound g) \<and> numberInputEnabled (endRound g)
   \<and> roundCount (endRound g) = roundCount g + 1"
  by (simp add: endRound_def startRoundOpen_def Let_def)

lemma resolveActionBlock_blocks_nobody:
  assumes "stateJS g \<noteq> ''GAME_OVER''"
  shows "\<not> playerIsBlocked (resolveActionBlock targetIsAI g)
       \<and> \<not> aiIsBlocked (resolveActionBlock targetIsAI g)
       \<and> aiAsked (resolveActionBlock targetIsAI g)
       \<and> numberInputEnabled (resolveActionBlock targetIsAI g)
       \<and> roundCount (resolveActionBlock targetIsAI g) = roundCount g + 1"
  using assms
  by (simp add: resolveActionBlock_def endRound_def startRoundOpen_def Let_def)

text \<open>C8 states that a block keeps a player out of exactly the next number round and is
  never cleared without that round taking place. Version 3.0 does this: a number round
  unblocks every player (\<open>handleNumberRound_unblocks\<close>), a blocked player declares nothing
  in it (\<open>blocked_player_declares_nothing\<close>) and nothing but a number round clears a block
  (\<open>block_cleared_only_by_number_round\<close>). The web application (game.js) does not: in the
  action phase of round 4 the human player plays \<open>block\<close> on the AI; \<open>resolveAction\<close> sets
  \<open>ai.isBlocked\<close> and says "blocked for next round", and \<open>endRound\<close> then resets both flags
  before \<open>startRound\<close> of round 5 reads them. Round 5 begins with the AI not blocked and
  asked for its card: the block was cleared and no blocked round took place.\<close>

theorem C8_js_block_cleared_before_next_round:
  "(let g = \<lparr>playerIsBlocked = False, aiIsBlocked = False, roundCount = 4,
             stateJS = ''PLAY_ACTION'', aiAsked = True, numberInputEnabled = False\<rparr>;
        blocked = g\<lparr>aiIsBlocked := True\<rparr>;
        g' = resolveActionBlock True g
    in g' = endRound blocked
     \<and> roundCount g' = 5
     \<and> \<not> aiIsBlocked g'
     \<and> aiAsked g'
     \<and> numberInputEnabled g')"
  by (simp add: resolveActionBlock_def endRound_def startRoundOpen_def Let_def)

subsection \<open>C4: a tied round\<close>

text \<open>\<open>setupGame\<close> is the only function that fills \<open>players\<close>, and it creates exactly two
  players (its \<open>numPlayers\<close> is the constant 2); no handler changes the length of the
  vector. So every state of a game has two players.\<close>

lemma handleNumberRound_length [simp]:
  "length (players (handleNumberRound inp s)) = length (players s)"
proof -
  obtain s1 pc m ws where c: "collectCards (cardOf inp) [0..<length (players s)] s
      (replicate (length (players s)) 0) (- 1) [] = (s1, pc, m, ws)"
    by (metis prod_cases4)
  have "length (players s1) = length (players s)"
    using collectCards_length [of "cardOf inp" "[0..<length (players s)]" s
        "replicate (length (players s)) 0" "- 1" "[]"] c by simp
  then show ?thesis
    using c by (simp add: handleNumberRound_def Let_def checkWinCondition_def
        checkConsecutiveWins_def)
qed







end
